theory Spec2Isabelle
  imports Complex_Main "HOL-Library.Word"
begin

unbundle bit_operations_syntax

section \<open>Errors of the package\<close>

text \<open>
  Every error value the modelled functions of package voxaudio return. The Go code
  builds them with \<^verbatim>\<open>fmt.Errorf\<close>; the constructor keeps which return statement
  produced the error.
\<close>

datatype error =
    PortAudioInitFailed      \<comment> \<open>portaudio.go: "portaudio initialization failed"\<close>
  | HostApisFailed           \<comment> \<open>the error of portaudio.HostApis(), returned as it is\<close>
  | DeviceNotFound string    \<comment> \<open>"specified input device not found: %s"\<close>
  | DefaultHostApiFailed     \<comment> \<open>output_capture.go: portaudio.DefaultHostApi() failed\<close>
  | NoLoopbackDevice         \<comment> \<open>output_capture.go: no device selected at all\<close>
  | NoInputChannels          \<comment> \<open>output_capture.go: the selected device has 0 input channels\<close>
  | OpenStreamFailed         \<comment> \<open>"failed to open stream"\<close>
  | StartStreamFailed        \<comment> \<open>"failed to start stream"\<close>
  | IOError                  \<comment> \<open>an error of an os.File or data-channel operation\<close>
  | DecoderFailed            \<comment> \<open>the error of opus.NewDecoder, returned as it is\<close>
  | PlayerFailed             \<comment> \<open>the error of oto.NewContext, returned as it is\<close>
  | SessionSetupFailed       \<comment> \<open>NewSession: the directory or a WebRTC object cannot be created\<close>

section \<open>Driver lifecycle guard (portaudio.go)\<close>

text \<open>
  The package-level variables \<^verbatim>\<open>paInitMutex\<close> and \<^verbatim>\<open>paInitCount\<close>. Both functions hold
  the mutex for their whole body, so each call is one atomic step on the state below.
  The physical driver is outside the repository: the state records every call made to it
  (oldest first), an \<^verbatim>\<open>Initialize\<close> together with whether it succeeded.
  \<^verbatim>\<open>paInitCount\<close> is a Go \<^verbatim>\<open>int\<close> that only ever changes by one; it is modelled as
  an unbounded integer.
\<close>

datatype pa_call = PaInitialize bool | PaTerminate

record pa_state =
  paInitCount :: int
  pa_calls :: "pa_call list"

definition pa_initial :: pa_state where
  "pa_initial = \<lparr>paInitCount = 0, pa_calls = []\<rparr>"

text \<open>
  \<^verbatim>\<open>SafePortAudioInit\<close>. The first argument is the outcome \<^verbatim>\<open>portaudio.Initialize()\<close>
  has if this call reaches it.
\<close>

definition SafePortAudioInit :: "bool \<Rightarrow> pa_state \<Rightarrow> pa_state \<times> error option" where
  "SafePortAudioInit init_ok s =
     (if paInitCount s = 0 then
        (if \<not> init_ok
         then (s\<lparr>pa_calls := pa_calls s @ [PaInitialize False]\<rparr>, Some PortAudioInitFailed)
         else (s\<lparr>pa_calls := pa_calls s @ [PaInitialize True],
                 paInitCount := paInitCount s + 1\<rparr>, None))
      else (s\<lparr>paInitCount := paInitCount s + 1\<rparr>, None))"

text \<open>\<^verbatim>\<open>SafePortAudioTerminate\<close>: decrement, then tear down and clamp when not positive.\<close>

definition SafePortAudioTerminate :: "pa_state \<Rightarrow> pa_state" where
  "SafePortAudioTerminate s =
     (let s1 = s\<lparr>paInitCount := paInitCount s - 1\<rparr>
      in if paInitCount s1 \<le> 0
         then s1\<lparr>pa_calls := pa_calls s1 @ [PaTerminate], paInitCount := 0\<rparr>
         else s1)"

text \<open>
  A run of Acquire calls that all succeed: \<open>None\<close> as soon as one of them returns an
  error. The list gives, call by call, the outcome of the physical initialisation.
\<close>

fun acquire_all :: "bool list \<Rightarrow> pa_state \<Rightarrow> pa_state option" where
  "acquire_all [] s = Some s"
| "acquire_all (ok # oks) s =
     (case SafePortAudioInit ok s of
        (s', None) \<Rightarrow> acquire_all oks s'
      | (s', Some e) \<Rightarrow> None)"

fun release_n :: "nat \<Rightarrow> pa_state \<Rightarrow> pa_state" where
  "release_n 0 s = s"
| "release_n (Suc n) s = release_n n (SafePortAudioTerminate s)"

text \<open>Any interleaving of calls by any number of components is a list of guard operations.\<close>

datatype guard_op = Acquire bool | Release

fun guard_step :: "guard_op \<Rightarrow> pa_state \<Rightarrow> pa_state" where
  "guard_step (Acquire ok) s = fst (SafePortAudioInit ok s)"
| "guard_step Release s = SafePortAudioTerminate s"

fun guard_run :: "guard_op list \<Rightarrow> pa_state \<Rightarrow> pa_state" where
  "guard_run [] s = s"
| "guard_run (x # xs) s = guard_run xs (guard_step x s)"

section \<open>Device catalog (the portaudio declarations the recorders read)\<close>

text \<open>
  \<^verbatim>\<open>portaudio.DeviceInfo\<close> and \<^verbatim>\<open>portaudio.HostApiInfo\<close>, with the fields the package
  reads. \<^verbatim>\<open>DefaultInputDevice\<close> is a pointer that may be nil.
\<close>

record DeviceInfo =
  Index :: int
  Name :: string
  MaxInputChannels :: int
  MaxOutputChannels :: int
  DefaultSampleRate :: real

record HostApiInfo =
  ApiName :: string
  Devices :: "DeviceInfo list"
  DefaultInputDevice :: "DeviceInfo option"

text \<open>
  The helper \<^verbatim>\<open>contains\<close> of the loopback recorder's file: the loop over the start index
  \<open>i\<close>, running while \<^verbatim>\<open>i <= len(s)-len(substr)\<close> in signed arithmetic, comparing the
  slice \<^verbatim>\<open>s[i:i+len(substr)]\<close>.
\<close>

function contains_from :: "string \<Rightarrow> string \<Rightarrow> nat \<Rightarrow> bool" where
  "contains_from s substr i =
     (if int i \<le> int (length s) - int (length substr)
      then (if take (length substr) (drop i s) = substr then True
            else contains_from s substr (Suc i))
      else False)"
  by pat_completeness auto
termination
  by (relation "measure (\<lambda>(s, substr, i). Suc (length s) - i)") auto

declare contains_from.simps [simp del]

definition contains :: "string \<Rightarrow> string \<Rightarrow> bool" where
  "contains s substr = contains_from s substr 0"

text \<open>
  The two nested \<^verbatim>\<open>for ... range\<close> loops every selection pass is written as: the inner loop
  stops at the first device that satisfies the test, the outer loop stops as soon as a
  device is selected.
\<close>

fun scan_devices :: "(DeviceInfo \<Rightarrow> bool) \<Rightarrow> DeviceInfo list \<Rightarrow> DeviceInfo option" where
  "scan_devices p [] = None"
| "scan_devices p (dev # devs) = (if p dev then Some dev else scan_devices p devs)"

fun scan_apis :: "(DeviceInfo \<Rightarrow> bool) \<Rightarrow> HostApiInfo list \<Rightarrow> DeviceInfo option" where
  "scan_apis p [] = None"
| "scan_apis p (api # apis) =
     (case scan_devices p (Devices api) of
        Some dev \<Rightarrow> Some dev
      | None \<Rightarrow> scan_apis p apis)"

text \<open>The devices in enumeration order: host API by host API.\<close>

definition all_devices :: "HostApiInfo list \<Rightarrow> DeviceInfo list" where
  "all_devices apis = concat (map Devices apis)"

text \<open>What the driver answers to the calls a recorder's \<^verbatim>\<open>Start\<close> makes.\<close>

record pa_env =
  host_apis :: "HostApiInfo list option"      \<comment> \<open>\<^verbatim>\<open>portaudio.HostApis()\<close>; \<open>None\<close>: it fails\<close>
  default_host_api :: "HostApiInfo option"    \<comment> \<open>\<^verbatim>\<open>portaudio.DefaultHostApi()\<close>; \<open>None\<close>: it fails\<close>
  open_ok :: bool                             \<comment> \<open>whether \<^verbatim>\<open>portaudio.OpenStream\<close> succeeds\<close>
  start_ok :: bool                            \<comment> \<open>whether \<^verbatim>\<open>stream.Start()\<close> succeeds\<close>

section \<open>Channels and recorders\<close>

text \<open>A \<^verbatim>\<open>float32\<close> as its 32 bits (IEEE 754 binary32).\<close>

type_synonym float32 = "32 word"

text \<open>
  A buffered Go channel: the queued elements (oldest first), the capacity given to
  \<^verbatim>\<open>make\<close>, and whether \<^verbatim>\<open>close\<close> was called.
\<close>

record 'a chan =
  queue :: "'a list"
  capacity :: nat
  chan_closed :: bool

definition make_chan :: "nat \<Rightarrow> 'a chan" where
  "make_chan n = \<lparr>queue = [], capacity = n, chan_closed = False\<rparr>"

datatype stream_status = StreamOpened | StreamStarted | StreamStopped | StreamClosed

record stream =
  stream_device :: DeviceInfo
  stream_channels :: int
  stream_rate :: real
  frames_per_buffer :: "int option"   \<comment> \<open>\<open>None\<close>: left at the driver's default\<close>
  high_latency :: bool
  status :: stream_status

text \<open>
  \<^verbatim>\<open>LoopbackRecorder\<close> and \<^verbatim>\<open>OutputCaptureRecorder\<close> have the same fields. The sample type
  (\<^verbatim>\<open>float32\<close>) is a parameter: the recorders only copy samples.
\<close>

record 'a recorder =
  stream :: "stream option"
  Samples :: "'a list chan"
  isClosed :: bool

subsection \<open>LoopbackRecorder.Start: selection and stream opening\<close>

definition loopback_select :: "HostApiInfo list \<Rightarrow> string \<Rightarrow> DeviceInfo option" where
  "loopback_select apis deviceName =
     (let selected = scan_apis (\<lambda>dev. MaxInputChannels dev > 0 \<and> Name dev = deviceName) apis
      in if selected = None \<and> deviceName \<noteq> []
         then scan_apis (\<lambda>dev. MaxInputChannels dev > 0 \<and> contains (Name dev) deviceName) apis
         else selected)"

definition open_and_start ::
  "pa_env \<Rightarrow> stream \<Rightarrow> 'a recorder \<Rightarrow> 'a recorder \<times> error option" where
  "open_and_start env params r =
     (if \<not> open_ok env then (r, Some OpenStreamFailed)
      else if \<not> start_ok env
        then (r\<lparr>stream := Some (params\<lparr>status := StreamClosed\<rparr>)\<rparr>, Some StartStreamFailed)
        else (r\<lparr>stream := Some (params\<lparr>status := StreamStarted\<rparr>)\<rparr>, None))"

definition LoopbackRecorder_Start ::
  "pa_env \<Rightarrow> string \<Rightarrow> 'a recorder \<Rightarrow> 'a recorder \<times> error option" where
  "LoopbackRecorder_Start env deviceName r =
     (case host_apis env of
        None \<Rightarrow> (r, Some HostApisFailed)
      | Some apis \<Rightarrow>
          (case loopback_select apis deviceName of
             None \<Rightarrow> (r, Some (DeviceNotFound deviceName))
           | Some selected \<Rightarrow>
               open_and_start env
                 \<lparr>stream_device = selected, stream_channels = MaxInputChannels selected,
                  stream_rate = DefaultSampleRate selected, frames_per_buffer = Some 512,
                  high_latency = False, status = StreamOpened\<rparr> r))"

subsection \<open>OutputCaptureRecorder.Start: selection and stream opening\<close>

definition is_loopback_marker :: "DeviceInfo \<Rightarrow> bool" where
  "is_loopback_marker dev \<longleftrightarrow>
     contains (Name dev) ''BlackHole'' \<or> contains (Name dev) ''Loopback''"

text \<open>
  The three selection passes. The result is the value of \<^verbatim>\<open>selected\<close> after pass 3
  (\<open>None\<close> for nil), or the error pass 3 returns when \<^verbatim>\<open>DefaultHostApi\<close> fails.
\<close>

definition output_capture_select ::
  "pa_env \<Rightarrow> HostApiInfo list \<Rightarrow> string \<Rightarrow> error + DeviceInfo option" where
  "output_capture_select env apis deviceName =
     (let selected = scan_apis is_loopback_marker apis;
          selected =
            (if selected = None \<and> deviceName \<noteq> []
             then scan_apis (\<lambda>dev. MaxInputChannels dev > 0 \<and>
                    (Name dev = deviceName \<or> contains (Name dev) deviceName)) apis
             else selected)
      in if selected = None
         then (case default_host_api env of
                 None \<Rightarrow> Inl DefaultHostApiFailed
               | Some api \<Rightarrow> Inr (DefaultInputDevice api))
         else Inr selected)"

definition OutputCaptureRecorder_Start ::
  "pa_env \<Rightarrow> string \<Rightarrow> 'a recorder \<Rightarrow> 'a recorder \<times> error option" where
  "OutputCaptureRecorder_Start env deviceName r =
     (case host_apis env of
        None \<Rightarrow> (r, Some HostApisFailed)
      | Some apis \<Rightarrow>
          (case output_capture_select env apis deviceName of
             Inl e \<Rightarrow> (r, Some e)
           | Inr None \<Rightarrow> (r, Some NoLoopbackDevice)
           | Inr (Some selected) \<Rightarrow>
               if MaxInputChannels selected = 0 then (r, Some NoInputChannels)
               else open_and_start env
                 \<lparr>stream_device = selected, stream_channels = MaxInputChannels selected,
                  stream_rate = DefaultSampleRate selected, frames_per_buffer = None,
                  high_latency = True, status = StreamOpened\<rparr> r))"

subsection \<open>Constructors\<close>

text \<open>
  \<^verbatim>\<open>NewLoopbackRecorder\<close> and \<^verbatim>\<open>NewOutputCaptureRecorder\<close> have the same body: acquire the
  driver, then build the recorder around a channel of capacity 1024.
\<close>

definition new_recorder :: "'a recorder" where
  "new_recorder = \<lparr>stream = None, Samples = make_chan 1024, isClosed = False\<rparr>"

definition NewLoopbackRecorder :: "bool \<Rightarrow> pa_state \<Rightarrow> pa_state \<times> (error + 'a recorder)" where
  "NewLoopbackRecorder init_ok s =
     (case SafePortAudioInit init_ok s of
        (s', Some e) \<Rightarrow> (s', Inl e)
      | (s', None) \<Rightarrow> (s', Inr new_recorder))"

definition NewOutputCaptureRecorder :: "bool \<Rightarrow> pa_state \<Rightarrow> pa_state \<times> (error + 'a recorder)" where
  "NewOutputCaptureRecorder init_ok s =
     (case SafePortAudioInit init_ok s of
        (s', Some e) \<Rightarrow> (s', Inl e)
      | (s', None) \<Rightarrow> (s', Inr new_recorder))"

subsection \<open>Channel operations\<close>

text \<open>
  One attempt to send on a channel that no receiver is waiting on: the value is queued
  when there is room; a send on a closed channel panics; otherwise the send cannot
  proceed. A plain send statement then parks the sender until a receiver makes room; a
  \<^verbatim>\<open>select\<close> with a \<^verbatim>\<open>default\<close> case runs the default case instead.
\<close>

datatype 'a send_result = Sent "'a chan" | WouldBlock | SendPanics

definition chan_send :: "'a \<Rightarrow> 'a chan \<Rightarrow> 'a send_result" where
  "chan_send v ch =
     (if chan_closed ch then SendPanics
      else if length (queue ch) < capacity ch then Sent (ch\<lparr>queue := queue ch @ [v]\<rparr>)
      else WouldBlock)"

datatype 'a outcome = Returns 'a | Panics

text \<open>\<^verbatim>\<open>close(ch)\<close>: closing a closed channel panics.\<close>

definition close_chan :: "'a chan \<Rightarrow> 'a chan outcome" where
  "close_chan ch = (if chan_closed ch then Panics else Returns (ch\<lparr>chan_closed := True\<rparr>))"

subsection \<open>The stream callbacks\<close>

text \<open>
  What one invocation of a stream callback does: it returns (with the new state and the
  lines it printed), it is parked inside a channel send, or it panics.
\<close>

datatype 's callback_result =
    CallbackReturns 's "string list"
  | CallbackBlocked
  | CallbackPanics

text \<open>
  The callback of \<^verbatim>\<open>LoopbackRecorder.Start\<close>: \<^verbatim>\<open>sampleCopy\<close> has the elements of
  \<^verbatim>\<open>input\<close>; the send is a \<^verbatim>\<open>select\<close> with a \<^verbatim>\<open>default\<close> case.
\<close>

definition loopback_callback :: "'a list \<Rightarrow> 'a recorder \<Rightarrow> 'a recorder callback_result" where
  "loopback_callback input r =
     (let sampleCopy = input
      in case chan_send sampleCopy (Samples r) of
           Sent ch \<Rightarrow> CallbackReturns (r\<lparr>Samples := ch\<rparr>) []
         | WouldBlock \<Rightarrow>
             CallbackReturns r [''Warning: Sample channel is full, discarding one frame'']
         | SendPanics \<Rightarrow> CallbackPanics)"

text \<open>\<^verbatim>\<open>copy(dst, src)\<close>: the first \<open>min (len dst) (len src)\<close> elements are overwritten.\<close>

definition go_copy :: "'a list \<Rightarrow> 'a list \<Rightarrow> 'a list" where
  "go_copy dst src = take (length dst) src @ drop (length src) dst"

text \<open>
  The callback of \<^verbatim>\<open>OutputCaptureRecorder.Start\<close>. The closure owns the buffer \<^verbatim>\<open>in\<close>
  (first component of the state); the send is a plain send statement.
\<close>

definition output_capture_callback ::
  "'a list \<Rightarrow> 'a list \<times> 'a recorder \<Rightarrow> ('a list \<times> 'a recorder) callback_result" where
  "output_capture_callback input st =
     (case st of (inbuf, r) \<Rightarrow>
        (let inbuf' = go_copy inbuf input
         in case chan_send inbuf' (Samples r) of
              Sent ch \<Rightarrow> CallbackReturns (inbuf', r\<lparr>Samples := ch\<rparr>) []
            | WouldBlock \<Rightarrow> CallbackBlocked
            | SendPanics \<Rightarrow> CallbackPanics))"

subsection \<open>Stop of a recorder\<close>

text \<open>
  \<^verbatim>\<open>LoopbackRecorder.Stop\<close> and \<^verbatim>\<open>OutputCaptureRecorder.Stop\<close> have the same body, run
  under the recorder's mutex: stop and drop the stream when there is one, close the
  channel unless \<^verbatim>\<open>isClosed\<close>, then call \<^verbatim>\<open>SafePortAudioTerminate\<close>. The state is the
  driver lifecycle state together with the recorder.
\<close>

definition recorder_Stop :: "pa_state \<times> 'a recorder \<Rightarrow> (pa_state \<times> 'a recorder) outcome" where
  "recorder_Stop w =
     (case w of (pa, r) \<Rightarrow>
        (let r1 = (if stream r \<noteq> None then r\<lparr>stream := None\<rparr> else r)
         in case (if \<not> isClosed r1
                  then (case close_chan (Samples r1) of
                          Panics \<Rightarrow> Panics
                        | Returns ch \<Rightarrow> Returns (r1\<lparr>Samples := ch, isClosed := True\<rparr>))
                  else Returns r1) of
              Panics \<Rightarrow> Panics
            | Returns r2 \<Rightarrow> Returns (SafePortAudioTerminate pa, r2)))"

definition LoopbackRecorder_Stop ::
  "pa_state \<times> 'a recorder \<Rightarrow> (pa_state \<times> 'a recorder) outcome" where
  "LoopbackRecorder_Stop = recorder_Stop"

definition OutputCaptureRecorder_Stop ::
  "pa_state \<times> 'a recorder \<Rightarrow> (pa_state \<times> 'a recorder) outcome" where
  "OutputCaptureRecorder_Stop = recorder_Stop"

text \<open>The flag \<^verbatim>\<open>isClosed\<close> mirrors the channel: only \<^verbatim>\<open>Stop\<close> closes it.\<close>

definition recorder_inv :: "'a recorder \<Rightarrow> bool" where
  "recorder_inv r \<longleftrightarrow> (isClosed r \<longleftrightarrow> chan_closed (Samples r))"

text \<open>Sequencing of calls that may panic.\<close>

definition and_then :: "'a outcome \<Rightarrow> ('a \<Rightarrow> 'b outcome) \<Rightarrow> 'b outcome" where
  "and_then x f = (case x of Panics \<Rightarrow> Panics | Returns a \<Rightarrow> f a)"

section \<open>Session: the data channel, the send loop, Start and Stop\<close>

text \<open>
  The data channel of the peer connection, as the session uses it: its ready state and the
  text messages \<^verbatim>\<open>SendText\<close> has handed to the transport, oldest first. A message is the
  JSON object \<^verbatim>\<open>json.Marshal\<close> renders; the constructors are the three objects the session
  builds.
\<close>

datatype dc_ready_state = DcConnecting | DcOpen | DcClosing | DcClosed

datatype message =
    SessionUpdate string string      \<comment> \<open>type session.update; session: voice, instructions\<close>
  | InputAudioBufferAppend string    \<comment> \<open>type input_audio_buffer.append; audio\<close>
  | ResponseCancel                   \<comment> \<open>type response.cancel\<close>

datatype on_open_handler = LogOpened | InitializeSessionOnOpen

record data_channel =
  ready_state :: dc_ready_state
  sent :: "message list"
  on_open :: "on_open_handler option"

text \<open>\<^verbatim>\<open>dc.SendText\<close>: an error, and nothing sent, unless the channel is open.\<close>

definition dc_SendText :: "message \<Rightarrow> data_channel \<Rightarrow> data_channel \<times> error option" where
  "dc_SendText msg d =
     (if ready_state d = DcOpen then (d\<lparr>sent := sent d @ [msg]\<rparr>, None)
      else (d, Some IOError))"

text \<open>
  The fields of \<^verbatim>\<open>Session\<close> the modelled methods use. \<^verbatim>\<open>NewSession\<close> is the only
  constructor and sets \<^verbatim>\<open>pc\<close>, \<^verbatim>\<open>dc\<close> and \<^verbatim>\<open>recorder\<close> to non-nil pointers that are never
  reassigned, so the nil tests on them are false; \<^verbatim>\<open>stopCh\<close> is set to nil by \<^verbatim>\<open>Stop\<close>.
\<close>

record 'a session =
  stopCh :: "unit chan option"
  recorder :: "'a recorder"
  dc :: data_channel
  pc_closed :: bool
  voice :: string
  targetLang :: string

definition translation_prompt :: "string \<Rightarrow> string" where
  "translation_prompt lang =
     ''You are a real-time simultaneous interpreter. Please translate the user's speech into ''
     @ lang
     @ '' while maintaining the original speech rhythm, tone, emotion, and characteristics.''
     @ ''When translating, accurately convey the original meaning while making the translated language sound natural and fluent, conforming to ''
     @ lang
     @ '' expression habits.''
     @ ''Please only output the translation result, do not add any additional explanations or prefixes like 'translation:'. Please ensure to generate voice output.''"

definition buildTranslationPrompt :: "'a session \<Rightarrow> string" where
  "buildTranslationPrompt s = translation_prompt (targetLang s)"

text \<open>\<^verbatim>\<open>initializeSession\<close>: the error of \<^verbatim>\<open>SendText\<close> is dropped; then it sleeps 100 ms.\<close>

definition initializeSession :: "'a session \<Rightarrow> 'a session" where
  "initializeSession s =
     (let prompt = buildTranslationPrompt s;
          prompt = (if prompt = [] then ''Translate to '' @ targetLang s @ '' and read out loud''
                    else prompt)
      in s\<lparr>dc := fst (dc_SendText (SessionUpdate (voice s) prompt) (dc s))\<rparr>)"

text \<open>
  Two steps of the send loop are parameters of the model. The first is the conversion of
  one \<^verbatim>\<open>float32\<close> sample to \<^verbatim>\<open>int16\<close>: the two comparisons with 1.0 and -1.0 that clamp
  it and \<^verbatim>\<open>int16(sample * 32767.0)\<close>, all of it IEEE 754 arithmetic of the Go runtime.
  The second is the library function \<^verbatim>\<open>base64.StdEncoding.EncodeToString\<close>.
\<close>

record 'a codecs =
  float_to_int16 :: "'a \<Rightarrow> 16 word"
  base64_encode :: "8 word list \<Rightarrow> string"

text \<open>\<^verbatim>\<open>byte(x)\<close> then \<^verbatim>\<open>byte(x >> 8)\<close> of an \<^verbatim>\<open>int16\<close>: the shift is arithmetic.\<close>

definition int16_le :: "16 word \<Rightarrow> 8 word list" where
  "int16_le x = [ucast x, ucast (signed_drop_bit 8 x)]"

definition pcm_bytes :: "'a codecs \<Rightarrow> 'a list \<Rightarrow> 8 word list" where
  "pcm_bytes c samples = concat (map (\<lambda>sample. int16_le (float_to_int16 c sample)) samples)"

datatype 'a recv_result = Received 'a "'a chan" | RecvClosed | RecvWouldBlock

definition chan_recv :: "'a chan \<Rightarrow> 'a recv_result" where
  "chan_recv ch =
     (case queue ch of
        x # xs \<Rightarrow> Received x (ch\<lparr>queue := xs\<rparr>)
      | [] \<Rightarrow> if chan_closed ch then RecvClosed else RecvWouldBlock)"

datatype 's loop_step = Continue 's | Exits 's | Parked

text \<open>
  One pass of the send goroutine through its \<^verbatim>\<open>select\<close>. \<open>stop_taken\<close>: the runtime takes
  the case \<^verbatim>\<open><-s.stopCh\<close>. Otherwise the case on \<^verbatim>\<open>s.recorder.Samples\<close>: the batch is taken
  from the channel, dropped when the data channel is not open, and otherwise converted
  and sent; a send error is only printed. The counters kept for the log lines do not
  influence what is sent and are left out.
\<close>

definition send_loop_iteration :: "'a codecs \<Rightarrow> bool \<Rightarrow> 'a session \<Rightarrow> 'a session loop_step" where
  "send_loop_iteration c stop_taken s =
     (if stop_taken then Exits s
      else case chan_recv (Samples (recorder s)) of
             RecvWouldBlock \<Rightarrow> Parked
           | RecvClosed \<Rightarrow> Exits s
           | Received samples ch \<Rightarrow>
               (let s1 = s\<lparr>recorder := (recorder s)\<lparr>Samples := ch\<rparr>\<rparr>
                in if ready_state (dc s1) \<noteq> DcOpen then Continue s1
                   else Continue (s1\<lparr>dc := fst (dc_SendText
                          (InputAudioBufferAppend (base64_encode c (pcm_bytes c samples)))
                          (dc s1))\<rparr>)))"

text \<open>
  \<^verbatim>\<open>Session.Start\<close> in two parts. The first part runs from the first line through the
  \<^verbatim>\<open>go\<close> statement that starts the send goroutine; the second part is the rest: the test
  of the data channel's state, which either registers the handler that calls
  \<^verbatim>\<open>initializeSession\<close> or calls it at once. From the \<^verbatim>\<open>go\<close> statement on, the send
  goroutine and the stream callback run concurrently with the second part.
\<close>

definition Session_Start_spawn ::
  "pa_env \<Rightarrow> string \<Rightarrow> 'a session \<Rightarrow> 'a session \<times> error option" where
  "Session_Start_spawn env deviceName s =
     (case LoopbackRecorder_Start env deviceName (recorder s) of
        (r, Some e) \<Rightarrow> (s\<lparr>recorder := r\<rparr>, Some e)
      | (r, None) \<Rightarrow> (s\<lparr>recorder := r\<rparr>, None))"

definition Session_Start_rest :: "'a session \<Rightarrow> 'a session" where
  "Session_Start_rest s =
     (if ready_state (dc s) \<noteq> DcOpen
      then s\<lparr>dc := (dc s)\<lparr>on_open := Some InitializeSessionOnOpen\<rparr>\<rparr>
      else initializeSession s)"

definition Session_Start ::
  "pa_env \<Rightarrow> string \<Rightarrow> 'a session \<Rightarrow> 'a session \<times> error option" where
  "Session_Start env deviceName s =
     (case Session_Start_spawn env deviceName s of
        (s1, Some e) \<Rightarrow> (s1, Some e)
      | (s1, None) \<Rightarrow> (Session_Start_rest s1, None))"

text \<open>
  \<^verbatim>\<open>Session.Stop\<close>: close the stop channel unless the field is nil and set the field to nil;
  stop the recorder; when the data channel is open, send the cancel message (error
  dropped) and close the channel; sleep; close the peer connection.
\<close>

definition Session_Stop :: "pa_state \<times> 'a session \<Rightarrow> (pa_state \<times> 'a session) outcome" where
  "Session_Stop w =
     (case w of (pa, s) \<Rightarrow>
        and_then
          (case stopCh s of
             None \<Rightarrow> Returns s
           | Some ch \<Rightarrow> and_then (close_chan ch) (\<lambda>ch'. Returns (s\<lparr>stopCh := None\<rparr>)))
          (\<lambda>s1. and_then (recorder_Stop (pa, recorder s1))
             (\<lambda>w'. case w' of (pa', r') \<Rightarrow>
                (let s2 = s1\<lparr>recorder := r'\<rparr>;
                     s3 = (if ready_state (dc s2) = DcOpen
                           then s2\<lparr>dc := (fst (dc_SendText ResponseCancel (dc s2)))
                                       \<lparr>ready_state := DcClosed\<rparr>\<rparr>
                           else s2)
                 in Returns (pa', s3\<lparr>pc_closed := True\<rparr>)))))"

text \<open>
  When the send goroutine returns, its deferred call \<^verbatim>\<open>s.recorder.Stop()\<close> runs.
\<close>

definition send_goroutine_return ::
  "pa_state \<times> 'a session \<Rightarrow> (pa_state \<times> 'a session) outcome" where
  "send_goroutine_return w =
     (case w of (pa, s) \<Rightarrow>
        and_then (recorder_Stop (pa, recorder s))
          (\<lambda>w'. case w' of (pa', r') \<Rightarrow> Returns (pa', s\<lparr>recorder := r'\<rparr>)))"

text \<open>
  The session \<^verbatim>\<open>NewSession\<close> builds, given the state of the data channel it created
  (connecting, until the transport reports otherwise).
\<close>

definition new_session :: "dc_ready_state \<Rightarrow> string \<Rightarrow> string \<Rightarrow> 'a session" where
  "new_session st v lang =
     \<lparr>stopCh = Some (make_chan 0), recorder = new_recorder,
      dc = \<lparr>ready_state = st, sent = [], on_open = None\<rparr>,
      pc_closed = False, voice = v, targetLang = lang\<rparr>"

text \<open>
  \<^verbatim>\<open>NewSession\<close>: the defaults for voice and language; the directory, the peer connection,
  the track and the data channel (\<open>setup_ok\<close>: all of them are created); then the recorder,
  whose constructor acquires the driver.
\<close>

definition NewSession ::
  "bool \<Rightarrow> bool \<Rightarrow> string \<Rightarrow> string \<Rightarrow> pa_state \<Rightarrow> pa_state \<times> (error + 'a session)" where
  "NewSession setup_ok init_ok v lang pa =
     (let v1 = (if v = [] then ''alloy'' else v);
          lang1 = (if lang = [] then ''English'' else lang)
      in if \<not> setup_ok then (pa, Inl SessionSetupFailed)
         else case NewLoopbackRecorder init_ok pa of
                (pa', Inl e) \<Rightarrow> (pa', Inl e)
              | (pa', Inr r) \<Rightarrow> (pa', Inr ((new_session DcConnecting v1 lang1)\<lparr>recorder := r\<rparr>)))"

text \<open>
  An execution of \<^verbatim>\<open>Session.Start\<close> in which the runtime schedules the stream callback
  and one pass of the send goroutine between the \<^verbatim>\<open>go\<close> statement and the rest of
  \<^verbatim>\<open>Start\<close>: the callback delivers \<open>input\<close>, the send goroutine takes it from the channel,
  then \<^verbatim>\<open>Start\<close> goes on. \<open>None\<close> when a step cannot happen that way (the recorder does
  not start, the callback does not return, the goroutine finds no batch).
\<close>

definition start_with_early_send_pass ::
  "'a codecs \<Rightarrow> pa_env \<Rightarrow> string \<Rightarrow> 'a list \<Rightarrow> 'a session \<Rightarrow> 'a session option" where
  "start_with_early_send_pass c env deviceName input s =
     (case Session_Start_spawn env deviceName s of
        (s1, Some e) \<Rightarrow> None
      | (s1, None) \<Rightarrow>
          (case loopback_callback input (recorder s1) of
             CallbackReturns r out \<Rightarrow>
               (case send_loop_iteration c False (s1\<lparr>recorder := r\<rparr>) of
                  Continue s2 \<Rightarrow> Some (Session_Start_rest s2)
                | Exits s2 \<Rightarrow> None
                | Parked \<Rightarrow> None)
           | CallbackBlocked \<Rightarrow> None
           | CallbackPanics \<Rightarrow> None))"

text \<open>
  The transport opens the data channel: the ready state becomes open, then the handler
  registered with \<^verbatim>\<open>OnOpen\<close> is run (by the WebRTC library, in a goroutine of its own).
\<close>

definition data_channel_opens :: "'a session \<Rightarrow> 'a session" where
  "data_channel_opens s = s\<lparr>dc := (dc s)\<lparr>ready_state := DcOpen\<rparr>\<rparr>"

definition on_open_runs :: "'a session \<Rightarrow> 'a session" where
  "on_open_runs s =
     (case on_open (dc s) of
        Some InitializeSessionOnOpen \<Rightarrow> initializeSession s
      | Some LogOpened \<Rightarrow> s
      | None \<Rightarrow> s)"

text \<open>
  An execution in which \<^verbatim>\<open>Session.Start\<close> is called before the data channel is open (it
  registers the handler and returns), the transport then opens the channel, and the
  stream callback and one pass of the send goroutine are scheduled before the handler.
\<close>

definition open_with_early_send_pass ::
  "'a codecs \<Rightarrow> pa_env \<Rightarrow> string \<Rightarrow> 'a list \<Rightarrow> 'a session \<Rightarrow> 'a session option" where
  "open_with_early_send_pass c env deviceName input s =
     (case Session_Start env deviceName s of
        (s1, Some e) \<Rightarrow> None
      | (s1, None) \<Rightarrow>
          (let s2 = data_channel_opens s1
           in case loopback_callback input (recorder s2) of
                CallbackReturns r out \<Rightarrow>
                  (case send_loop_iteration c False (s2\<lparr>recorder := r\<rparr>) of
                     Continue s3 \<Rightarrow> Some (on_open_runs s3)
                   | Exits s3 \<Rightarrow> None
                   | Parked \<Rightarrow> None)
              | CallbackBlocked \<Rightarrow> None
              | CallbackPanics \<Rightarrow> None))"

section \<open>The audio file: writeWavHeader and updateWavHeader\<close>

text \<open>
  An \<^verbatim>\<open>os.File\<close> opened by \<^verbatim>\<open>os.Create\<close>: its bytes and the position of the next write.
  Whether the operating system fails an operation is not decided by the program: every
  operation takes it as its first argument (\<open>True\<close>: the operation fails and changes
  nothing).
\<close>

type_synonym byte = "8 word"

record os_file =
  contents :: "byte list"
  offset :: nat

definition empty_file :: os_file where
  "empty_file = \<lparr>contents = [], offset = 0\<rparr>"

text \<open>Writing at a position overwrites what is there and extends the file as needed.\<close>

definition write_at :: "nat \<Rightarrow> byte list \<Rightarrow> byte list \<Rightarrow> byte list" where
  "write_at off bs cs =
     take off (cs @ replicate (off - length cs) 0) @ bs @ drop (off + length bs) cs"

definition file_Write :: "bool \<Rightarrow> byte list \<Rightarrow> os_file \<Rightarrow> os_file \<times> nat \<times> error option" where
  "file_Write failing bs f =
     (if failing then (f, 0, Some IOError)
      else (f\<lparr>contents := write_at (offset f) bs (contents f),
              offset := offset f + length bs\<rparr>, length bs, None))"

definition file_WriteString :: "bool \<Rightarrow> string \<Rightarrow> os_file \<Rightarrow> os_file \<times> error option" where
  "file_WriteString failing str f =
     (case file_Write failing (map of_char str) f of (f', n, e) \<Rightarrow> (f', e))"

text \<open>\<^verbatim>\<open>binary.Write(file, binary.LittleEndian, v)\<close>, given the little-endian bytes of \<open>v\<close>.\<close>

definition binary_Write :: "bool \<Rightarrow> byte list \<Rightarrow> os_file \<Rightarrow> os_file \<times> error option" where
  "binary_Write failing bs f = (case file_Write failing bs f of (f', n, e) \<Rightarrow> (f', e))"

text \<open>\<^verbatim>\<open>file.Seek(off, 0)\<close>.\<close>

definition file_Seek :: "bool \<Rightarrow> nat \<Rightarrow> os_file \<Rightarrow> os_file \<times> error option" where
  "file_Seek failing off f = (if failing then (f, Some IOError) else (f\<lparr>offset := off\<rparr>, None))"

definition le16 :: "16 word \<Rightarrow> byte list" where
  "le16 w = [ucast w, ucast (drop_bit 8 w)]"

definition le32 :: "32 word \<Rightarrow> byte list" where
  "le32 w = [ucast w, ucast (drop_bit 8 w), ucast (drop_bit 16 w), ucast (drop_bit 24 w)]"

text \<open>Reading a 32-bit little-endian field back: \<open>None\<close> when the file is too short.\<close>

definition le32_decode :: "byte list \<Rightarrow> 32 word option" where
  "le32_decode bs =
     (case bs of
        [b0, b1, b2, b3] \<Rightarrow>
          Some (ucast b0 OR push_bit 8 (ucast b1) OR push_bit 16 (ucast b2)
                OR push_bit 24 (ucast b3))
      | _ \<Rightarrow> None)"

definition le32_at :: "nat \<Rightarrow> byte list \<Rightarrow> 32 word option" where
  "le32_at off bs = le32_decode (take 4 (drop off bs))"

text \<open>
  Go's \<^verbatim>\<open>int\<close> and \<^verbatim>\<open>int64\<close> arithmetic on mathematical integers: a result wraps to 64
  bits, division truncates towards zero, and a conversion to an unsigned type keeps the
  low bits.
\<close>

definition int64 :: "int \<Rightarrow> int" where
  "int64 x = signed_take_bit 63 x"

definition go_div :: "int \<Rightarrow> int \<Rightarrow> int" where
  "go_div a b = sgn a * sgn b * (\<bar>a\<bar> div \<bar>b\<bar>)"

definition uint16 :: "int \<Rightarrow> 16 word" where
  "uint16 x = word_of_int x"

definition uint32 :: "int \<Rightarrow> 32 word" where
  "uint32 x = word_of_int x"

text \<open>Each step of the two functions returns at the first error.\<close>

definition io_then ::
  "os_file \<times> error option \<Rightarrow> (os_file \<Rightarrow> os_file \<times> error option) \<Rightarrow> os_file \<times> error option" where
  "io_then r k = (case r of (f, None) \<Rightarrow> k f | (f, Some e) \<Rightarrow> (f, Some e))"

definition writeWavHeader :: "bool \<Rightarrow> os_file \<Rightarrow> int \<Rightarrow> int \<Rightarrow> int \<Rightarrow> os_file \<times> error option" where
  "writeWavHeader failing audioFile sampleRate numChannels bitsPerSample =
     io_then (file_WriteString failing ''RIFF'' audioFile) (\<lambda>f.
     io_then (binary_Write failing (le32 0) f) (\<lambda>f.
     io_then (file_WriteString failing ''WAVE'' f) (\<lambda>f.
     io_then (file_WriteString failing ''fmt '' f) (\<lambda>f.
     io_then (binary_Write failing (le32 16) f) (\<lambda>f.
     io_then (binary_Write failing (le16 1) f) (\<lambda>f.
     io_then (binary_Write failing (le16 (uint16 numChannels)) f) (\<lambda>f.
     io_then (binary_Write failing (le32 (uint32 sampleRate)) f) (\<lambda>f.
     io_then (binary_Write failing (le32 (uint32
        (go_div (int64 (int64 (sampleRate * numChannels) * bitsPerSample)) 8))) f) (\<lambda>f.
     io_then (binary_Write failing (le16 (uint16
        (go_div (int64 (numChannels * bitsPerSample)) 8))) f) (\<lambda>f.
     io_then (binary_Write failing (le16 (uint16 bitsPerSample)) f) (\<lambda>f.
     io_then (file_WriteString failing ''data'' f) (\<lambda>f.
     binary_Write failing (le32 0) f))))))))))))"

definition updateWavHeader :: "bool \<Rightarrow> os_file \<Rightarrow> int \<Rightarrow> os_file \<times> error option" where
  "updateWavHeader failing audioFile dataSize =
     io_then (file_Seek failing 40 audioFile) (\<lambda>f.
     io_then (binary_Write failing (le32 (uint32 dataSize)) f) (\<lambda>f.
     io_then (file_Seek failing 4 f) (\<lambda>f.
     binary_Write failing (le32 (uint32 (int64 (dataSize + 36)))) f)))"

text \<open>The 44 bytes of the header, in the order \<^verbatim>\<open>writeWavHeader\<close> writes them.\<close>

definition wav_header :: "int \<Rightarrow> int \<Rightarrow> int \<Rightarrow> byte list" where
  "wav_header sampleRate numChannels bitsPerSample =
     map of_char ''RIFF'' @ le32 0 @ map of_char ''WAVE'' @ map of_char ''fmt '' @ le32 16
     @ le16 1 @ le16 (uint16 numChannels) @ le32 (uint32 sampleRate)
     @ le32 (uint32 (go_div (int64 (int64 (sampleRate * numChannels) * bitsPerSample)) 8))
     @ le16 (uint16 (go_div (int64 (numChannels * bitsPerSample)) 8))
     @ le16 (uint16 bitsPerSample) @ map of_char ''data'' @ le32 0"

text \<open>
  A sequence of writes to the file, with the running total kept the way \<^verbatim>\<open>localTrack\<close>
  keeps \<^verbatim>\<open>totalAudioBytes\<close>; then the whole life of a file whose operations all succeed:
  header, writes, update of the header with the total.
\<close>

fun write_all :: "byte list list \<Rightarrow> os_file \<times> int \<Rightarrow> os_file \<times> int" where
  "write_all [] ft = ft"
| "write_all (bs # rest) ft =
     (case file_Write False bs (fst ft) of
        (f', n, e) \<Rightarrow> write_all rest (f', int64 (snd ft + int n)))"

definition record_wav :: "int \<Rightarrow> int \<Rightarrow> int \<Rightarrow> byte list list \<Rightarrow> os_file" where
  "record_wav sampleRate numChannels bitsPerSample ws =
     (let f1 = fst (writeWavHeader False empty_file sampleRate numChannels bitsPerSample);
          ft = write_all ws (f1, 0)
      in fst (updateWavHeader False (fst ft) (snd ft)))"

section \<open>The receive loop: localTrack\<close>

text \<open>
  What the collaborators hand to one pass of the loop: whether the channel \<^verbatim>\<open>done\<close> is
  closed when the \<^verbatim>\<open>select\<close> is evaluated (it is closed by the goroutine that waits for
  the session's stop channel), the result of \<^verbatim>\<open>track.ReadRTP()\<close>, for a packet the result
  of \<^verbatim>\<open>decoder.Decode\<close> on its payload (the \<open>n\<close> decoded samples), and whether the
  operating system fails the file operations of this pass.
\<close>

datatype decode_result = DecodeError | Decoded "16 word list"

datatype rtp_read =
    RtpPacket "byte list" decode_result
  | RtpEOF                               \<comment> \<open>\<^verbatim>\<open>err == io.EOF\<close>\<close>
  | RtpError string                      \<comment> \<open>any other error, with the text of \<^verbatim>\<open>err.Error()\<close>\<close>

record tick =
  stop_signalled :: bool
  rtp :: rtp_read
  disk_failing :: bool

text \<open>The variables of \<^verbatim>\<open>localTrack\<close> that outlive one pass of the loop.\<close>

record track_state =
  audioFile :: "os_file option"       \<comment> \<open>\<open>None\<close>: nil, \<^verbatim>\<open>os.Create\<close> failed\<close>
  totalAudioBytes :: int
  audioBuffer :: "byte list"          \<comment> \<open>the bytes handed to the player's buffer\<close>
  packetCount :: int
  hasSoundData :: bool

definition frameSize :: nat where
  "frameSize = 960"

text \<open>The helper \<^verbatim>\<open>abs\<close> of utils.go, on \<^verbatim>\<open>int16\<close>: the negation wraps.\<close>

definition abs16 :: "16 word \<Rightarrow> 16 word" where
  "abs16 x = (if x <s 0 then - x else x)"

text \<open>\<^verbatim>\<open>strings.Contains\<close>: the substring test.\<close>

definition strings_Contains :: "string \<Rightarrow> string \<Rightarrow> bool" where
  "strings_Contains s substr = contains s substr"

text \<open>
  The block both exit paths run before \<^verbatim>\<open>return nil\<close>: when there is a file, update its
  header with the running total (the error of \<^verbatim>\<open>updateWavHeader\<close> is dropped).
\<close>

definition finalize_audio_file :: "bool \<Rightarrow> track_state \<Rightarrow> track_state" where
  "finalize_audio_file failing st =
     (case audioFile st of
        None \<Rightarrow> st
      | Some f \<Rightarrow> st\<lparr>audioFile := Some (fst (updateWavHeader failing f (totalAudioBytes st)))\<rparr>)"

datatype track_step = TrackContinues track_state | TrackReturns track_state | TrackPanics

text \<open>
  One pass of the \<^verbatim>\<open>for\<close> loop. A decoded frame longer than the buffer \<^verbatim>\<open>pcm\<close> makes the
  slice expression \<^verbatim>\<open>pcm[:n]\<close> panic. The time-based log line is left out.
\<close>

definition localTrack_iteration :: "tick \<Rightarrow> track_state \<Rightarrow> track_step" where
  "localTrack_iteration t st =
     (if stop_signalled t then TrackReturns (finalize_audio_file (disk_failing t) st)
      else case rtp t of
             RtpEOF \<Rightarrow> TrackReturns (finalize_audio_file (disk_failing t) st)
           | RtpError msg \<Rightarrow>
               if strings_Contains msg ''closed''
               then TrackReturns (finalize_audio_file (disk_failing t) st)
               else TrackContinues st
           | RtpPacket payload DecodeError \<Rightarrow> TrackContinues st
           | RtpPacket payload (Decoded pcm) \<Rightarrow>
               if frameSize < length pcm then TrackPanics
               else
                 (let samples = concat (map int16_le pcm);
                      st1 = st\<lparr>hasSoundData := hasSoundData st \<or> list_ex (\<lambda>x. 0 <s abs16 x) pcm,
                               audioBuffer := audioBuffer st @ samples\<rparr>;
                      st2 = (case audioFile st1 of
                               None \<Rightarrow> st1
                             | Some f \<Rightarrow>
                                 (case file_Write (disk_failing t) samples f of
                                    (f', bytesWritten, Some e) \<Rightarrow> st1\<lparr>audioFile := Some f'\<rparr>
                                  | (f', bytesWritten, None) \<Rightarrow>
                                      st1\<lparr>audioFile := Some f',
                                          totalAudioBytes :=
                                            int64 (totalAudioBytes st1 + int bytesWritten)\<rparr>))
                  in TrackContinues (st2\<lparr>packetCount := int64 (packetCount st2 + 1)\<rparr>)))"

text \<open>
  The loop over the passes the collaborators provide: \<open>TrackContinues\<close> when the loop is
  still running after all of them.
\<close>

fun localTrack_loop :: "tick list \<Rightarrow> track_state \<Rightarrow> track_step" where
  "localTrack_loop [] st = TrackContinues st"
| "localTrack_loop (t # ts) st =
     (case localTrack_iteration t st of
        TrackContinues st' \<Rightarrow> localTrack_loop ts st'
      | TrackReturns st' \<Rightarrow> TrackReturns st'
      | TrackPanics \<Rightarrow> TrackPanics)"

text \<open>
  \<^verbatim>\<open>localTrack\<close> before the loop: the decoder and the player may fail (the error is
  returned); \<open>created\<close> is \<open>None\<close> when \<^verbatim>\<open>os.Create\<close> fails, and otherwise tells whether the
  writes of the header fail (the error of \<^verbatim>\<open>writeWavHeader\<close> is dropped).
\<close>

definition localTrack_setup :: "bool \<Rightarrow> bool \<Rightarrow> bool option \<Rightarrow> error + track_state" where
  "localTrack_setup decoder_ok player_ok created =
     (if \<not> decoder_ok then Inl DecoderFailed
      else if \<not> player_ok then Inl PlayerFailed
      else Inr \<lparr>audioFile =
                   (case created of
                      None \<Rightarrow> None
                    | Some failing \<Rightarrow> Some (fst (writeWavHeader failing empty_file 48000 1 16))),
                 totalAudioBytes = 0, audioBuffer = [], packetCount = 0,
                 hasSoundData = False\<rparr>)"

text \<open>The two conditions under which a pass returns.\<close>

definition transport_closed :: "rtp_read \<Rightarrow> bool" where
  "transport_closed r =
     (case r of
        RtpEOF \<Rightarrow> True
      | RtpError msg \<Rightarrow> strings_Contains msg ''closed''
      | RtpPacket payload d \<Rightarrow> False)"

text \<open>A pass that meets a decode failure or a read error other than closure.\<close>

definition transient_failure :: "rtp_read \<Rightarrow> bool" where
  "transient_failure r =
     (case r of
        RtpEOF \<Rightarrow> False
      | RtpError msg \<Rightarrow> \<not> strings_Contains msg ''closed''
      | RtpPacket payload d \<Rightarrow> d = DecodeError)"

section \<open>Catalogs to run the selection on\<close>

definition usb_mic_pro :: DeviceInfo where
  "usb_mic_pro = \<lparr>Index = 0, Name = ''USB Mic Pro'', MaxInputChannels = 1,
     MaxOutputChannels = 0, DefaultSampleRate = 48000\<rparr>"

definition usb_mic :: DeviceInfo where
  "usb_mic = \<lparr>Index = 1, Name = ''USB Mic'', MaxInputChannels = 1,
     MaxOutputChannels = 0, DefaultSampleRate = 48000\<rparr>"

definition blackhole_2ch :: DeviceInfo where
  "blackhole_2ch = \<lparr>Index = 2, Name = ''BlackHole 2ch'', MaxInputChannels = 2,
     MaxOutputChannels = 2, DefaultSampleRate = 48000\<rparr>"

definition loopback_out_only :: DeviceInfo where
  "loopback_out_only = \<lparr>Index = 3, Name = ''Loopback Audio'', MaxInputChannels = 0,
     MaxOutputChannels = 2, DefaultSampleRate = 44100\<rparr>"

definition core_audio :: "DeviceInfo list \<Rightarrow> DeviceInfo option \<Rightarrow> HostApiInfo" where
  "core_audio devs dflt = \<lparr>ApiName = ''Core Audio'', Devices = devs, DefaultInputDevice = dflt\<rparr>"

definition env_of :: "DeviceInfo list \<Rightarrow> DeviceInfo option \<Rightarrow> pa_env" where
  "env_of devs dflt =
     \<lparr>host_apis = Some [core_audio devs dflt], default_host_api = Some (core_audio devs dflt),
      open_ok = True, start_ok = True\<rparr>"

section \<open>Properties of the driver lifecycle guard\<close>

lemma SafePortAudioInit_positive:
  "0 < paInitCount s \<Longrightarrow>
   SafePortAudioInit ok s = (s\<lparr>paInitCount := paInitCount s + 1\<rparr>, None)"
  by (simp add: SafePortAudioInit_def)

lemma acquire_all_positive:
  "0 < paInitCount s \<Longrightarrow>
   acquire_all oks s = Some (s\<lparr>paInitCount := paInitCount s + int (length oks)\<rparr>)"
proof (induction oks arbitrary: s)
  case Nil
  then show ?case by simp
next
  case (Cons ok oks)
  have "acquire_all (ok # oks) s = acquire_all oks (s\<lparr>paInitCount := paInitCount s + 1\<rparr>)"
    using Cons.prems by (simp add: SafePortAudioInit_positive)
  also have "\<dots> = Some (s\<lparr>paInitCount := paInitCount s + 1 + int (length oks)\<rparr>)"
    using Cons.prems Cons.IH [of "s\<lparr>paInitCount := paInitCount s + 1\<rparr>"] by simp
  finally show ?case by (simp add: add.assoc)
qed

lemma acquire_all_initial:
  assumes "acquire_all oks pa_initial = Some s" and "oks \<noteq> []"
  shows "s = \<lparr>paInitCount = int (length oks), pa_calls = [PaInitialize True]\<rparr>"
proof -
  obtain ok rest where oks: "oks = ok # rest"
    using assms(2) by (cases oks) auto
  have ok: "ok"
    using assms(1) by (auto simp: oks SafePortAudioInit_def pa_initial_def split: if_splits)
  let ?s1 = "\<lparr>paInitCount = 1, pa_calls = [PaInitialize True]\<rparr>"
  have "acquire_all oks pa_initial = acquire_all rest ?s1"
    using ok by (simp add: oks SafePortAudioInit_def pa_initial_def)
  also have "\<dots> = Some (?s1\<lparr>paInitCount := paInitCount ?s1 + int (length rest)\<rparr>)"
    by (rule acquire_all_positive) simp
  finally show ?thesis
    using assms(1) by (simp add: oks)
qed

lemma release_n_down:
  "int n < paInitCount s \<Longrightarrow>
   release_n n s = s\<lparr>paInitCount := paInitCount s - int n\<rparr>"
proof (induction n arbitrary: s)
  case 0
  then show ?case by simp
next
  case (Suc n)
  have step: "SafePortAudioTerminate s = s\<lparr>paInitCount := paInitCount s - 1\<rparr>"
    using Suc.prems by (simp add: SafePortAudioTerminate_def Let_def)
  show ?case
    using Suc.prems Suc.IH [of "s\<lparr>paInitCount := paInitCount s - 1\<rparr>"]
    by (simp add: step)
qed

lemma release_n_all:
  assumes "paInitCount s = int n" and "0 < n"
  shows "release_n n s = s\<lparr>pa_calls := pa_calls s @ [PaTerminate], paInitCount := 0\<rparr>"
proof -
  obtain m where n: "n = Suc m"
    using assms(2) by (cases n) auto
  have "release_n (m + 1) s = release_n 1 (release_n m s)" for s
    by (induction m arbitrary: s) simp_all
  then have "release_n n s = SafePortAudioTerminate (release_n m s)"
    by (simp add: n)
  also have "release_n m s = s\<lparr>paInitCount := paInitCount s - int m\<rparr>"
    by (rule release_n_down) (simp add: assms(1) n)
  also have "SafePortAudioTerminate (s\<lparr>paInitCount := paInitCount s - int m\<rparr>)
             = s\<lparr>pa_calls := pa_calls s @ [PaTerminate], paInitCount := 0\<rparr>"
    by (simp add: SafePortAudioTerminate_def Let_def assms(1) n)
  finally show ?thesis .
qed

lemma SafePortAudioTerminate_nonneg: "0 \<le> paInitCount (SafePortAudioTerminate s)"
  by (simp add: SafePortAudioTerminate_def Let_def)

lemma SafePortAudioInit_nonneg:
  "0 \<le> paInitCount s \<Longrightarrow> 0 \<le> paInitCount (fst (SafePortAudioInit ok s))"
  by (simp add: SafePortAudioInit_def)

lemma guard_run_nonneg: "0 \<le> paInitCount s \<Longrightarrow> 0 \<le> paInitCount (guard_run ops s)"
proof (induction ops arbitrary: s)
  case Nil
  then show ?case by simp
next
  case (Cons x xs)
  have "0 \<le> paInitCount (guard_step x s)"
    using Cons.prems
    by (cases x) (simp_all add: SafePortAudioTerminate_nonneg SafePortAudioInit_nonneg)
  then show ?case
    using Cons.IH by simp
qed

text \<open>
  C4. From the initial state, \<open>N > 0\<close> Acquire calls that all succeed followed by \<open>N\<close>
  Release calls make exactly one physical initialisation (by the first call, on the
  transition of the counter from 0 to 1) and exactly one physical teardown (by the last
  Release, which brings the counter to 0). Whatever calls are made, in whatever order and
  with more Release than Acquire, the counter is never negative, and a Release at
  counter 0 leaves it at 0. An Acquire that returns an error leaves the counter as it
  was.
\<close>

theorem guard_reference_counting:
  "(acquire_all oks pa_initial = Some s \<and> oks \<noteq> [] \<longrightarrow>
      s = \<lparr>paInitCount = int (length oks), pa_calls = [PaInitialize True]\<rparr> \<and>
      release_n (length oks - 1) s
        = \<lparr>paInitCount = 1, pa_calls = [PaInitialize True]\<rparr> \<and>
      release_n (length oks) s
        = \<lparr>paInitCount = 0, pa_calls = [PaInitialize True, PaTerminate]\<rparr>)
   \<and> 0 \<le> paInitCount (guard_run ops pa_initial)
   \<and> 0 \<le> paInitCount (SafePortAudioTerminate t)
   \<and> (paInitCount t = 0 \<longrightarrow> paInitCount (SafePortAudioTerminate t) = 0)
   \<and> (snd (SafePortAudioInit ok t) \<noteq> None \<longrightarrow>
        paInitCount (fst (SafePortAudioInit ok t)) = paInitCount t)"
proof -
  have part1: "s = \<lparr>paInitCount = int (length oks), pa_calls = [PaInitialize True]\<rparr> \<and>
      release_n (length oks - 1) s = \<lparr>paInitCount = 1, pa_calls = [PaInitialize True]\<rparr> \<and>
      release_n (length oks) s = \<lparr>paInitCount = 0, pa_calls = [PaInitialize True, PaTerminate]\<rparr>"
    if a: "acquire_all oks pa_initial = Some s" and ne: "oks \<noteq> []"
  proof -
    have s: "s = \<lparr>paInitCount = int (length oks), pa_calls = [PaInitialize True]\<rparr>"
      using a ne by (rule acquire_all_initial)
    have len: "0 < length oks"
      using ne by simp
    have "release_n (length oks - 1) s = s\<lparr>paInitCount := paInitCount s - int (length oks - 1)\<rparr>"
      by (rule release_n_down) (use len in \<open>simp add: s\<close>)
    then have r1: "release_n (length oks - 1) s = \<lparr>paInitCount = 1, pa_calls = [PaInitialize True]\<rparr>"
      using len by (simp add: s)
    have "release_n (length oks) s = s\<lparr>pa_calls := pa_calls s @ [PaTerminate], paInitCount := 0\<rparr>"
      by (rule release_n_all) (use len in \<open>simp_all add: s\<close>)
    then have r2: "release_n (length oks) s
        = \<lparr>paInitCount = 0, pa_calls = [PaInitialize True, PaTerminate]\<rparr>"
      by (simp add: s)
    show ?thesis
      using s r1 r2 by blast
  qed
  have part2: "0 \<le> paInitCount (guard_run ops pa_initial)"
    by (rule guard_run_nonneg) (simp add: pa_initial_def)
  have part3: "0 \<le> paInitCount (SafePortAudioTerminate t)"
    by (rule SafePortAudioTerminate_nonneg)
  have part4: "paInitCount t = 0 \<longrightarrow> paInitCount (SafePortAudioTerminate t) = 0"
    by (simp add: SafePortAudioTerminate_def Let_def)
  have part5: "snd (SafePortAudioInit ok t) \<noteq> None \<longrightarrow>
        paInitCount (fst (SafePortAudioInit ok t)) = paInitCount t"
    by (simp add: SafePortAudioInit_def)
  show ?thesis
    using part1 part2 part3 part4 part5 by blast
qed

theorem guard_reference_counting_witness:
  "acquire_all [True, False, True] pa_initial
     = Some \<lparr>paInitCount = 3, pa_calls = [PaInitialize True]\<rparr>
   \<and> [True, False, True] \<noteq> []
   \<and> release_n 2 \<lparr>paInitCount = 3, pa_calls = [PaInitialize True]\<rparr>
       = \<lparr>paInitCount = 1, pa_calls = [PaInitialize True]\<rparr>
   \<and> release_n 3 \<lparr>paInitCount = 3, pa_calls = [PaInitialize True]\<rparr>
       = \<lparr>paInitCount = 0, pa_calls = [PaInitialize True, PaTerminate]\<rparr>
   \<and> 0 \<le> paInitCount (guard_run [Release, Acquire True, Release, Release] pa_initial)
   \<and> paInitCount pa_initial = 0
   \<and> paInitCount (SafePortAudioTerminate pa_initial) = 0
   \<and> snd (SafePortAudioInit False pa_initial) \<noteq> None
   \<and> paInitCount (fst (SafePortAudioInit False pa_initial)) = paInitCount pa_initial"
proof -
  have a: "acquire_all [True, False, True] pa_initial
     = Some \<lparr>paInitCount = 3, pa_calls = [PaInitialize True]\<rparr>"
    by (simp add: SafePortAudioInit_def pa_initial_def)
  have f: "snd (SafePortAudioInit False pa_initial) \<noteq> None"
    by (simp add: SafePortAudioInit_def pa_initial_def)
  have z: "paInitCount pa_initial = 0"
    by (simp add: pa_initial_def)
  show ?thesis
    using a f z
      guard_reference_counting [of "[True, False, True]"
        "\<lparr>paInitCount = 3, pa_calls = [PaInitialize True]\<rparr>"
        "[Release, Acquire True, Release, Release]" pa_initial False]
    by (simp add: eval_nat_numeral SafePortAudioTerminate_def Let_def)
qed

section \<open>Properties of device selection\<close>

lemma scan_devices_find: "scan_devices p devs = find p devs"
  by (induction devs) simp_all

lemma find_append_cases:
  "find p (xs @ ys) = (case find p xs of Some x \<Rightarrow> Some x | None \<Rightarrow> find p ys)"
  by (induction xs) simp_all

lemma scan_apis_find: "scan_apis p apis = find p (all_devices apis)"
proof (induction apis)
  case Nil
  show ?case by (simp add: all_devices_def)
next
  case (Cons api apis)
  have "all_devices (api # apis) = Devices api @ all_devices apis"
    by (simp add: all_devices_def)
  then show ?case
    using Cons.IH by (simp add: scan_devices_find find_append_cases split: option.splits)
qed

lemma find_exists:
  assumes "x \<in> set xs" and "p x"
  obtains y where "find p xs = Some y" and "p y" and "y \<in> set xs"
proof -
  have "find p xs \<noteq> None"
    using assms by (auto simp: find_None_iff)
  then obtain y where y: "find p xs = Some y"
    by blast
  then have "p y" and "y \<in> set xs"
    by (auto simp: find_Some_iff)
  with y show ?thesis
    by (rule that)
qed

lemma find_unique:
  assumes "x \<in> set xs" and "p x" and "\<forall>y\<in>set xs. p y \<longrightarrow> y = x"
  shows "find p xs = Some x"
proof -
  obtain y where "find p xs = Some y" and "p y" and "y \<in> set xs"
    using assms(1,2) by (rule find_exists)
  then show ?thesis
    using assms(3) by auto
qed

text \<open>Pass 1 of the output-capture recorder decides as soon as a marker device is listed.\<close>

lemma output_capture_select_marker:
  "find is_loopback_marker (all_devices apis) = Some d \<Longrightarrow>
   output_capture_select env apis deviceName = Inr (Some d)"
  by (simp add: output_capture_select_def scan_apis_find Let_def)

text \<open>Pass 1 of the loopback recorder decides as soon as an exact match is listed.\<close>

lemma loopback_select_exact:
  "find (\<lambda>dev. MaxInputChannels dev > 0 \<and> Name dev = deviceName) (all_devices apis) = Some d \<Longrightarrow>
   loopback_select apis deviceName = Some d"
  by (simp add: loopback_select_def scan_apis_find Let_def)

lemma loopback_select_none:
  assumes "deviceName = [] \<or>
      (\<forall>dev\<in>set (all_devices apis). MaxInputChannels dev > 0 \<longrightarrow> \<not> contains (Name dev) deviceName)"
    and "\<forall>dev\<in>set (all_devices apis). MaxInputChannels dev > 0 \<longrightarrow> Name dev \<noteq> deviceName"
  shows "loopback_select apis deviceName = None"
proof -
  have exact: "find (\<lambda>dev. MaxInputChannels dev > 0 \<and> Name dev = deviceName) (all_devices apis) = None"
    using assms(2) by (auto simp: find_None_iff)
  show ?thesis
  proof (cases "deviceName = []")
    case True
    then show ?thesis
      using exact by (simp add: loopback_select_def scan_apis_find Let_def)
  next
    case False
    then have "find (\<lambda>dev. MaxInputChannels dev > 0 \<and> contains (Name dev) deviceName)
        (all_devices apis) = None"
      using assms(1) by (auto simp: find_None_iff)
    then show ?thesis
      using exact by (simp add: loopback_select_def scan_apis_find Let_def)
  qed
qed

lemma output_capture_select_default:
  assumes "\<forall>dev\<in>set (all_devices apis). \<not> is_loopback_marker dev"
    and "deviceName = [] \<or>
      (\<forall>dev\<in>set (all_devices apis). MaxInputChannels dev > 0 \<longrightarrow>
          Name dev \<noteq> deviceName \<and> \<not> contains (Name dev) deviceName)"
  shows "output_capture_select env apis deviceName =
     (case default_host_api env of
        None \<Rightarrow> Inl DefaultHostApiFailed
      | Some api \<Rightarrow> Inr (DefaultInputDevice api))"
proof -
  have marker: "find is_loopback_marker (all_devices apis) = None"
    using assms(1) by (auto simp: find_None_iff)
  show ?thesis
  proof (cases "deviceName = []")
    case True
    then show ?thesis
      using marker by (simp add: output_capture_select_def scan_apis_find Let_def)
  next
    case False
    then have "find (\<lambda>dev. MaxInputChannels dev > 0 \<and>
        (Name dev = deviceName \<or> contains (Name dev) deviceName)) (all_devices apis) = None"
      using assms(2) by (auto simp: find_None_iff)
    then show ?thesis
      using marker by (simp add: output_capture_select_def scan_apis_find Let_def)
  qed
qed

text \<open>
  C5. In a catalog that lists a device \<open>e\<close> named exactly \<open>label\<close>, a device whose name
  contains \<open>label\<close> and a loopback-marker device \<open>m\<close>, all three with input channels,
  wherever in the enumeration order each stands: the output-capture recorder selects the
  first device whose name carries a marker (hence \<open>m\<close> when no other device carries one),
  although an exact match is listed; the plain capture (loopback) recorder selects the
  first input-capable device named exactly \<open>label\<close> (hence \<open>e\<close> when it is the only one),
  never the substring match.
\<close>

theorem device_selection_precedence:
  assumes "e \<in> set (all_devices apis)" and "Name e = label" and "MaxInputChannels e > 0"
    and "sub \<in> set (all_devices apis)" and "contains (Name sub) label"
    and "MaxInputChannels sub > 0"
    and "m \<in> set (all_devices apis)" and "is_loopback_marker m" and "MaxInputChannels m > 0"
  shows "(\<exists>d. find is_loopback_marker (all_devices apis) = Some d \<and>
              output_capture_select env apis label = Inr (Some d) \<and> is_loopback_marker d)
       \<and> ((\<forall>x\<in>set (all_devices apis). is_loopback_marker x \<longrightarrow> x = m) \<longrightarrow>
              output_capture_select env apis label = Inr (Some m))
       \<and> (\<exists>d. find (\<lambda>dev. MaxInputChannels dev > 0 \<and> Name dev = label) (all_devices apis) = Some d \<and>
              loopback_select apis label = Some d \<and> Name d = label \<and> MaxInputChannels d > 0)
       \<and> ((\<forall>x\<in>set (all_devices apis). MaxInputChannels x > 0 \<and> Name x = label \<longrightarrow> x = e) \<longrightarrow>
              loopback_select apis label = Some e)"
proof -
  obtain d where d: "find is_loopback_marker (all_devices apis) = Some d"
    and dm: "is_loopback_marker d"
    using assms(7,8) by (rule find_exists [where p = is_loopback_marker])
  have out: "output_capture_select env apis label = Inr (Some d)"
    using d by (rule output_capture_select_marker)
  have out_m: "output_capture_select env apis label = Inr (Some m)"
    if "\<forall>x\<in>set (all_devices apis). is_loopback_marker x \<longrightarrow> x = m"
  proof -
    have "find is_loopback_marker (all_devices apis) = Some m"
      using assms(7,8) that by (rule find_unique)
    then show ?thesis
      by (rule output_capture_select_marker)
  qed
  let ?exact = "\<lambda>dev. MaxInputChannels dev > 0 \<and> Name dev = label"
  have "?exact e"
    using assms(2,3) by simp
  with assms(1) obtain d' where d': "find ?exact (all_devices apis) = Some d'" and ex: "?exact d'"
    by (rule find_exists [where p = ?exact])
  have lb: "loopback_select apis label = Some d'"
    using d' by (rule loopback_select_exact)
  have lb_e: "loopback_select apis label = Some e"
    if "\<forall>x\<in>set (all_devices apis). MaxInputChannels x > 0 \<and> Name x = label \<longrightarrow> x = e"
  proof -
    have "find ?exact (all_devices apis) = Some e"
      using assms(1) \<open>?exact e\<close> that by (rule find_unique)
    then show ?thesis
      by (rule loopback_select_exact)
  qed
  show ?thesis
    using d dm out out_m d' ex lb lb_e by blast
qed

lemma example_names:
  "contains (Name usb_mic_pro) ''USB Mic''"
  "\<not> is_loopback_marker usb_mic_pro"
  "\<not> is_loopback_marker usb_mic"
  "is_loopback_marker blackhole_2ch"
  "is_loopback_marker loopback_out_only"
  by (simp_all add: usb_mic_pro_def usb_mic_def blackhole_2ch_def loopback_out_only_def
      is_loopback_marker_def contains_def contains_from.simps)

theorem device_selection_precedence_witness:
  "output_capture_select (env_of [usb_mic_pro, usb_mic, blackhole_2ch] None)
      [core_audio [usb_mic_pro, usb_mic, blackhole_2ch] None] ''USB Mic'' = Inr (Some blackhole_2ch)
   \<and> loopback_select
      [core_audio [usb_mic_pro, usb_mic, blackhole_2ch] None] ''USB Mic'' = Some usb_mic"
proof -
  let ?apis = "[core_audio [usb_mic_pro, usb_mic, blackhole_2ch] None]"
  have all: "all_devices ?apis = [usb_mic_pro, usb_mic, blackhole_2ch]"
    by (simp add: all_devices_def core_audio_def)
  have only_m: "\<forall>x\<in>set (all_devices ?apis). is_loopback_marker x \<longrightarrow> x = blackhole_2ch"
    by (simp add: all example_names)
  have only_e: "\<forall>x\<in>set (all_devices ?apis).
      MaxInputChannels x > 0 \<and> Name x = ''USB Mic'' \<longrightarrow> x = usb_mic"
    by (simp add: all) (simp add: usb_mic_pro_def blackhole_2ch_def)
  have "usb_mic \<in> set (all_devices ?apis)" "Name usb_mic = ''USB Mic''"
    "MaxInputChannels usb_mic > 0"
    "usb_mic_pro \<in> set (all_devices ?apis)" "contains (Name usb_mic_pro) ''USB Mic''"
    "MaxInputChannels usb_mic_pro > 0"
    "blackhole_2ch \<in> set (all_devices ?apis)" "is_loopback_marker blackhole_2ch"
    "MaxInputChannels blackhole_2ch > 0"
    by (simp_all add: all example_names) (simp_all add: usb_mic_def usb_mic_pro_def blackhole_2ch_def)
  from device_selection_precedence [OF this, of "env_of [usb_mic_pro, usb_mic, blackhole_2ch] None"]
  show ?thesis
    using only_m only_e by blast
qed

text \<open>
  C10. As soon as the enumeration lists a device whose name contains "BlackHole" or
  "Loopback", the output-capture recorder selects the first such device in enumeration
  order, whatever the requested label and whatever the device's number of input channels;
  when that device has zero input channels, Start returns the error of the channel-count
  check and leaves the recorder as it was: no other device is tried. When it has input
  channels, Start opens the stream on that very device, with all its input channels, its
  default sample rate and the high-latency parameters: Start succeeds with the stream
  started on it when the driver opens and starts the stream, and returns the error of the
  failing driver call otherwise.
\<close>

theorem output_capture_marker_without_capability_check:
  assumes "host_apis env = Some apis"
    and "m \<in> set (all_devices apis)" and "is_loopback_marker m"
  shows "\<exists>d. find is_loopback_marker (all_devices apis) = Some d
           \<and> output_capture_select env apis deviceName = Inr (Some d)
           \<and> (MaxInputChannels d = 0 \<longrightarrow>
                OutputCaptureRecorder_Start env deviceName r = (r, Some NoInputChannels))
           \<and> (MaxInputChannels d \<noteq> 0 \<longrightarrow>
                OutputCaptureRecorder_Start env deviceName r =
                  open_and_start env
                    \<lparr>stream_device = d, stream_channels = MaxInputChannels d,
                     stream_rate = DefaultSampleRate d, frames_per_buffer = None,
                     high_latency = True, status = StreamOpened\<rparr> r)
           \<and> (MaxInputChannels d \<noteq> 0 \<and> open_ok env \<and> start_ok env \<longrightarrow>
                OutputCaptureRecorder_Start env deviceName r =
                  (r\<lparr>stream := Some
                      \<lparr>stream_device = d, stream_channels = MaxInputChannels d,
                       stream_rate = DefaultSampleRate d, frames_per_buffer = None,
                       high_latency = True, status = StreamStarted\<rparr>\<rparr>, None))
           \<and> (MaxInputChannels d \<noteq> 0 \<and> \<not> open_ok env \<longrightarrow>
                OutputCaptureRecorder_Start env deviceName r = (r, Some OpenStreamFailed))
           \<and> (MaxInputChannels d \<noteq> 0 \<and> open_ok env \<and> \<not> start_ok env \<longrightarrow>
                OutputCaptureRecorder_Start env deviceName r =
                  (r\<lparr>stream := Some
                      \<lparr>stream_device = d, stream_channels = MaxInputChannels d,
                       stream_rate = DefaultSampleRate d, frames_per_buffer = None,
                       high_latency = True, status = StreamClosed\<rparr>\<rparr>,
                   Some StartStreamFailed))"
proof -
  obtain d where d: "find is_loopback_marker (all_devices apis) = Some d"
    using assms(2,3) by (rule find_exists [where p = is_loopback_marker])
  have sel: "output_capture_select env apis deviceName = Inr (Some d)"
    using d by (rule output_capture_select_marker)
  let ?params = "\<lparr>stream_device = d, stream_channels = MaxInputChannels d,
      stream_rate = DefaultSampleRate d, frames_per_buffer = None,
      high_latency = True, status = StreamOpened\<rparr>"
  have zero: "OutputCaptureRecorder_Start env deviceName r = (r, Some NoInputChannels)"
    if "MaxInputChannels d = 0"
    using that by (simp add: OutputCaptureRecorder_Start_def assms(1) sel)
  have usable: "OutputCaptureRecorder_Start env deviceName r = open_and_start env ?params r"
    if "MaxInputChannels d \<noteq> 0"
    using that by (simp add: OutputCaptureRecorder_Start_def assms(1) sel)
  have started: "OutputCaptureRecorder_Start env deviceName r =
      (r\<lparr>stream := Some (?params\<lparr>status := StreamStarted\<rparr>)\<rparr>, None)"
    if "MaxInputChannels d \<noteq> 0 \<and> open_ok env \<and> start_ok env"
    using that usable by (simp add: open_and_start_def)
  have not_opened: "OutputCaptureRecorder_Start env deviceName r = (r, Some OpenStreamFailed)"
    if "MaxInputChannels d \<noteq> 0 \<and> \<not> open_ok env"
    using that usable by (simp add: open_and_start_def)
  have not_started: "OutputCaptureRecorder_Start env deviceName r =
      (r\<lparr>stream := Some (?params\<lparr>status := StreamClosed\<rparr>)\<rparr>, Some StartStreamFailed)"
    if "MaxInputChannels d \<noteq> 0 \<and> open_ok env \<and> \<not> start_ok env"
    using that usable by (simp add: open_and_start_def)
  have "find is_loopback_marker (all_devices apis) = Some d
           \<and> output_capture_select env apis deviceName = Inr (Some d)
           \<and> (MaxInputChannels d = 0 \<longrightarrow>
                OutputCaptureRecorder_Start env deviceName r = (r, Some NoInputChannels))
           \<and> (MaxInputChannels d \<noteq> 0 \<longrightarrow>
                OutputCaptureRecorder_Start env deviceName r = open_and_start env ?params r)
           \<and> (MaxInputChannels d \<noteq> 0 \<and> open_ok env \<and> start_ok env \<longrightarrow>
                OutputCaptureRecorder_Start env deviceName r =
                  (r\<lparr>stream := Some
                      \<lparr>stream_device = d, stream_channels = MaxInputChannels d,
                       stream_rate = DefaultSampleRate d, frames_per_buffer = None,
                       high_latency = True, status = StreamStarted\<rparr>\<rparr>, None))
           \<and> (MaxInputChannels d \<noteq> 0 \<and> \<not> open_ok env \<longrightarrow>
                OutputCaptureRecorder_Start env deviceName r = (r, Some OpenStreamFailed))
           \<and> (MaxInputChannels d \<noteq> 0 \<and> open_ok env \<and> \<not> start_ok env \<longrightarrow>
                OutputCaptureRecorder_Start env deviceName r =
                  (r\<lparr>stream := Some
                      \<lparr>stream_device = d, stream_channels = MaxInputChannels d,
                       stream_rate = DefaultSampleRate d, frames_per_buffer = None,
                       high_latency = True, status = StreamClosed\<rparr>\<rparr>,
                   Some StartStreamFailed))"
    using d sel zero usable started not_opened not_started by simp
  then show ?thesis
    by (rule exI)
qed

text \<open>
  Two catalogs, both asked for "USB Mic", which is listed with an input channel. In the
  first the marker device has no input channel: Start returns the error. In the second
  the marker device has two: Start opens the stream on it, not on the device asked for;
  and when the driver refuses to open the stream, Start returns that error.
\<close>

theorem output_capture_marker_without_capability_check_witness:
  "host_apis (env_of [usb_mic, loopback_out_only] (Some usb_mic))
     = Some [core_audio [usb_mic, loopback_out_only] (Some usb_mic)]
   \<and> is_loopback_marker loopback_out_only
   \<and> MaxInputChannels loopback_out_only = 0
   \<and> output_capture_select (env_of [usb_mic, loopback_out_only] (Some usb_mic))
        [core_audio [usb_mic, loopback_out_only] (Some usb_mic)] ''USB Mic'' = Inr (Some loopback_out_only)
   \<and> OutputCaptureRecorder_Start (env_of [usb_mic, loopback_out_only] (Some usb_mic))
        ''USB Mic'' (new_recorder :: float32 recorder) = (new_recorder, Some NoInputChannels)
   \<and> host_apis (env_of [usb_mic, blackhole_2ch] (Some usb_mic))
     = Some [core_audio [usb_mic, blackhole_2ch] (Some usb_mic)]
   \<and> is_loopback_marker blackhole_2ch
   \<and> MaxInputChannels blackhole_2ch = 2
   \<and> MaxInputChannels usb_mic = 1 \<and> Name usb_mic = ''USB Mic''
   \<and> open_ok (env_of [usb_mic, blackhole_2ch] (Some usb_mic))
   \<and> start_ok (env_of [usb_mic, blackhole_2ch] (Some usb_mic))
   \<and> OutputCaptureRecorder_Start (env_of [usb_mic, blackhole_2ch] (Some usb_mic))
        ''USB Mic'' (new_recorder :: float32 recorder)
       = (new_recorder\<lparr>stream := Some
            \<lparr>stream_device = blackhole_2ch, stream_channels = 2, stream_rate = 48000,
             frames_per_buffer = None, high_latency = True, status = StreamStarted\<rparr>\<rparr>, None)
   \<and> OutputCaptureRecorder_Start
        ((env_of [usb_mic, blackhole_2ch] (Some usb_mic))\<lparr>open_ok := False\<rparr>)
        ''USB Mic'' (new_recorder :: float32 recorder)
       = (new_recorder, Some OpenStreamFailed)
   \<and> OutputCaptureRecorder_Start
        ((env_of [usb_mic, blackhole_2ch] (Some usb_mic))\<lparr>start_ok := False\<rparr>)
        ''USB Mic'' (new_recorder :: float32 recorder)
       = (new_recorder\<lparr>stream := Some
            \<lparr>stream_device = blackhole_2ch, stream_channels = 2, stream_rate = 48000,
             frames_per_buffer = None, high_latency = True, status = StreamClosed\<rparr>\<rparr>,
          Some StartStreamFailed)"
proof -
  let ?apis = "[core_audio [usb_mic, loopback_out_only] (Some usb_mic)]"
  let ?env = "env_of [usb_mic, loopback_out_only] (Some usb_mic)"
  have h: "host_apis ?env = Some ?apis"
    by (simp add: env_of_def)
  have all: "all_devices ?apis = [usb_mic, loopback_out_only]"
    by (simp add: all_devices_def core_audio_def)
  have mem: "loopback_out_only \<in> set (all_devices ?apis)"
    by (simp add: all)
  have mk: "is_loopback_marker loopback_out_only"
    by (rule example_names)
  have z: "MaxInputChannels loopback_out_only = 0"
    by (simp add: loopback_out_only_def)
  have first: "find is_loopback_marker (all_devices ?apis) = Some loopback_out_only"
    by (simp add: all example_names)
  have part_zero: "output_capture_select ?env ?apis ''USB Mic'' = Inr (Some loopback_out_only)
      \<and> OutputCaptureRecorder_Start ?env ''USB Mic'' (new_recorder :: float32 recorder)
          = (new_recorder, Some NoInputChannels)"
    using z first
      output_capture_marker_without_capability_check [OF h mem mk, of "''USB Mic''"
        "new_recorder :: float32 recorder"]
    by auto
  let ?apisB = "[core_audio [usb_mic, blackhole_2ch] (Some usb_mic)]"
  let ?envB = "env_of [usb_mic, blackhole_2ch] (Some usb_mic)"
  have hB: "host_apis ?envB = Some ?apisB" "host_apis (?envB\<lparr>open_ok := False\<rparr>) = Some ?apisB"
    "host_apis (?envB\<lparr>start_ok := False\<rparr>) = Some ?apisB"
    by (simp_all add: env_of_def)
  have flags: "open_ok ?envB" "start_ok ?envB" "\<not> open_ok (?envB\<lparr>open_ok := False\<rparr>)"
    "open_ok (?envB\<lparr>start_ok := False\<rparr>)" "\<not> start_ok (?envB\<lparr>start_ok := False\<rparr>)"
    by (simp_all add: env_of_def)
  have allB: "all_devices ?apisB = [usb_mic, blackhole_2ch]"
    by (simp add: all_devices_def core_audio_def)
  have memB: "blackhole_2ch \<in> set (all_devices ?apisB)"
    by (simp add: allB)
  have mkB: "is_loopback_marker blackhole_2ch"
    by (rule example_names)
  have firstB: "find is_loopback_marker (all_devices ?apisB) = Some blackhole_2ch"
    by (simp add: allB example_names)
  have bh: "MaxInputChannels blackhole_2ch = 2" "DefaultSampleRate blackhole_2ch = 48000"
    by (simp_all add: blackhole_2ch_def)
  have um: "MaxInputChannels usb_mic = 1" "Name usb_mic = ''USB Mic''"
    by (simp_all add: usb_mic_def)
  have ok: "OutputCaptureRecorder_Start ?envB ''USB Mic'' (new_recorder :: float32 recorder)
       = (new_recorder\<lparr>stream := Some
            \<lparr>stream_device = blackhole_2ch, stream_channels = 2, stream_rate = 48000,
             frames_per_buffer = None, high_latency = True, status = StreamStarted\<rparr>\<rparr>, None)"
    using firstB bh flags
      output_capture_marker_without_capability_check [OF hB(1) memB mkB, of "''USB Mic''"
        "new_recorder :: float32 recorder"]
    by auto
  have no_open: "OutputCaptureRecorder_Start (?envB\<lparr>open_ok := False\<rparr>) ''USB Mic''
        (new_recorder :: float32 recorder) = (new_recorder, Some OpenStreamFailed)"
    using firstB bh flags
      output_capture_marker_without_capability_check [OF hB(2) memB mkB, of "''USB Mic''"
        "new_recorder :: float32 recorder"]
    by auto
  have no_start: "OutputCaptureRecorder_Start (?envB\<lparr>start_ok := False\<rparr>) ''USB Mic''
        (new_recorder :: float32 recorder)
       = (new_recorder\<lparr>stream := Some
            \<lparr>stream_device = blackhole_2ch, stream_channels = 2, stream_rate = 48000,
             frames_per_buffer = None, high_latency = True, status = StreamClosed\<rparr>\<rparr>,
          Some StartStreamFailed)"
    using firstB bh flags
      output_capture_marker_without_capability_check [OF hB(3) memB mkB, of "''USB Mic''"
        "new_recorder :: float32 recorder"]
    by auto
  show ?thesis
    using h mk z part_zero hB(1) mkB bh(1) um flags(1,2) ok no_open no_start
    by simp
qed

text \<open>
  The loopback recorder at the empty label: an input-capable device is listed and is
  the host's default input device, yet Start returns the not-found error.
\<close>

theorem loopback_empty_label_no_fallback:
  "MaxInputChannels usb_mic > 0
   \<and> default_host_api (env_of [usb_mic] (Some usb_mic))
       = Some (core_audio [usb_mic] (Some usb_mic))
   \<and> LoopbackRecorder_Start (env_of [usb_mic] (Some usb_mic)) [] (new_recorder :: float32 recorder)
       = (new_recorder, Some (DeviceNotFound []))"
  by (simp add: env_of_def core_audio_def LoopbackRecorder_Start_def loopback_select_def
      usb_mic_def)

text \<open>
  C9, as the code has it. Take a label that neither exact-name nor substring matching
  selects: the empty label, or a label that no input-capable device's name equals or
  contains. (1) The output-capture recorder, when no listed device carries a loopback
  marker, takes the default host API's default input device; its Start then fails exactly
  when the default host API cannot be obtained, when that API has no default input device,
  when the default device has zero input channels, or when the stream cannot be opened or
  started. (2) The loopback (plain capture) recorder has no default fallback: when no
  input-capable device is named exactly as the label, it returns the not-found error and
  leaves the recorder as it was.
\<close>

theorem default_device_fallback:
  assumes "host_apis env = Some apis"
    and "deviceName = [] \<or>
      (\<forall>dev\<in>set (all_devices apis). MaxInputChannels dev > 0 \<longrightarrow>
          Name dev \<noteq> deviceName \<and> \<not> contains (Name dev) deviceName)"
  shows "((\<forall>dev\<in>set (all_devices apis). \<not> is_loopback_marker dev) \<longrightarrow>
            output_capture_select env apis deviceName =
              (case default_host_api env of
                 None \<Rightarrow> Inl DefaultHostApiFailed
               | Some api \<Rightarrow> Inr (DefaultInputDevice api))
          \<and> OutputCaptureRecorder_Start env deviceName r =
              (case default_host_api env of
                 None \<Rightarrow> (r, Some DefaultHostApiFailed)
               | Some api \<Rightarrow>
                   (case DefaultInputDevice api of
                      None \<Rightarrow> (r, Some NoLoopbackDevice)
                    | Some d \<Rightarrow>
                        if MaxInputChannels d = 0 then (r, Some NoInputChannels)
                        else open_and_start env
                          \<lparr>stream_device = d, stream_channels = MaxInputChannels d,
                           stream_rate = DefaultSampleRate d, frames_per_buffer = None,
                           high_latency = True, status = StreamOpened\<rparr> r)))
       \<and> ((\<forall>dev\<in>set (all_devices apis). MaxInputChannels dev > 0 \<longrightarrow> Name dev \<noteq> deviceName) \<longrightarrow>
            LoopbackRecorder_Start env deviceName r = (r, Some (DeviceNotFound deviceName)))"
proof -
  have out: "output_capture_select env apis deviceName =
              (case default_host_api env of
                 None \<Rightarrow> Inl DefaultHostApiFailed
               | Some api \<Rightarrow> Inr (DefaultInputDevice api))"
    if "\<forall>dev\<in>set (all_devices apis). \<not> is_loopback_marker dev"
    using that assms(2) by (rule output_capture_select_default)
  have start: "OutputCaptureRecorder_Start env deviceName r =
              (case default_host_api env of
                 None \<Rightarrow> (r, Some DefaultHostApiFailed)
               | Some api \<Rightarrow>
                   (case DefaultInputDevice api of
                      None \<Rightarrow> (r, Some NoLoopbackDevice)
                    | Some d \<Rightarrow>
                        if MaxInputChannels d = 0 then (r, Some NoInputChannels)
                        else open_and_start env
                          \<lparr>stream_device = d, stream_channels = MaxInputChannels d,
                           stream_rate = DefaultSampleRate d, frames_per_buffer = None,
                           high_latency = True, status = StreamOpened\<rparr> r))"
    if "\<forall>dev\<in>set (all_devices apis). \<not> is_loopback_marker dev"
    by (simp add: OutputCaptureRecorder_Start_def assms(1) out [OF that]
        split: option.splits)
  have lb: "LoopbackRecorder_Start env deviceName r = (r, Some (DeviceNotFound deviceName))"
    if ex: "\<forall>dev\<in>set (all_devices apis). MaxInputChannels dev > 0 \<longrightarrow> Name dev \<noteq> deviceName"
  proof -
    have "deviceName = [] \<or>
      (\<forall>dev\<in>set (all_devices apis). MaxInputChannels dev > 0 \<longrightarrow> \<not> contains (Name dev) deviceName)"
      using assms(2) by blast
    then have "loopback_select apis deviceName = None"
      using ex by (rule loopback_select_none)
    then show ?thesis
      by (simp add: LoopbackRecorder_Start_def assms(1))
  qed
  show ?thesis
    using out start lb by blast
qed

theorem default_device_fallback_witness:
  "host_apis (env_of [usb_mic] (Some usb_mic))
     = Some [core_audio [usb_mic] (Some usb_mic)]
   \<and> \<not> is_loopback_marker usb_mic
   \<and> MaxInputChannels usb_mic > 0 \<and> Name usb_mic \<noteq> []
   \<and> output_capture_select (env_of [usb_mic] (Some usb_mic))
        [core_audio [usb_mic] (Some usb_mic)] []
       = Inr (Some usb_mic)
   \<and> OutputCaptureRecorder_Start (env_of [usb_mic] (Some usb_mic)) [] (new_recorder :: float32 recorder)
       = (new_recorder\<lparr>stream := Some \<lparr>stream_device = usb_mic, stream_channels = 1,
             stream_rate = 48000, frames_per_buffer = None, high_latency = True,
             status = StreamStarted\<rparr>\<rparr>, None)
   \<and> LoopbackRecorder_Start (env_of [usb_mic] (Some usb_mic)) [] (new_recorder :: float32 recorder)
       = (new_recorder, Some (DeviceNotFound []))"
proof -
  let ?apis = "[core_audio [usb_mic] (Some usb_mic)]"
  let ?env = "env_of [usb_mic] (Some usb_mic)"
  have h: "host_apis ?env = Some ?apis"
    by (simp add: env_of_def)
  have all: "all_devices ?apis = [usb_mic]"
    by (simp add: all_devices_def core_audio_def)
  have nomark: "\<forall>dev\<in>set (all_devices ?apis). \<not> is_loopback_marker dev"
    by (simp add: all example_names)
  have noexact: "\<forall>dev\<in>set (all_devices ?apis). MaxInputChannels dev > 0 \<longrightarrow> Name dev \<noteq> []"
    by (simp add: all, simp add: usb_mic_def)
  have d: "default_host_api ?env = Some (core_audio [usb_mic] (Some usb_mic))"
    "DefaultInputDevice (core_audio [usb_mic] (Some usb_mic)) = Some usb_mic"
    "open_ok ?env" "start_ok ?env"
    by (simp_all add: env_of_def core_audio_def)
  have m: "MaxInputChannels usb_mic = 1" "DefaultSampleRate usb_mic = 48000" "Name usb_mic \<noteq> []"
    by (simp_all add: usb_mic_def)
  have "[] = ([]::string) \<or>
      (\<forall>dev\<in>set (all_devices ?apis). MaxInputChannels dev > 0 \<longrightarrow>
          Name dev \<noteq> [] \<and> \<not> contains (Name dev) [])"
    by simp
  from default_device_fallback [OF h this, of "new_recorder :: float32 recorder"]
  show ?thesis
    using h nomark noexact d m example_names(3)
    by (simp add: open_and_start_def)
qed

section \<open>Properties of the stream callbacks\<close>

lemma loopback_callback_never_blocks: "loopback_callback input r \<noteq> CallbackBlocked"
  by (simp add: loopback_callback_def chan_send_def)

lemma loopback_callback_full:
  assumes "\<not> chan_closed (Samples r)" and "capacity (Samples r) \<le> length (queue (Samples r))"
  shows "loopback_callback input r
     = CallbackReturns r [''Warning: Sample channel is full, discarding one frame'']"
  using assms by (simp add: loopback_callback_def chan_send_def)

lemma loopback_callback_room:
  assumes "\<not> chan_closed (Samples r)" and "length (queue (Samples r)) < capacity (Samples r)"
  shows "loopback_callback input r
     = CallbackReturns (r\<lparr>Samples := (Samples r)\<lparr>queue := queue (Samples r) @ [input]\<rparr>\<rparr>) []"
  using assms by (simp add: loopback_callback_def chan_send_def)

lemma output_capture_callback_full:
  assumes "\<not> chan_closed (Samples r)" and "capacity (Samples r) \<le> length (queue (Samples r))"
  shows "output_capture_callback input (inbuf, r) = CallbackBlocked"
  using assms by (simp add: output_capture_callback_def chan_send_def)

text \<open>
  C3 at a full pipe. The recorder is the one the constructors build, its channel holding
  1024 batches. The callback of the loopback recorder returns, leaves the recorder as it
  was and prints the warning; the callback of the output-capture recorder does not
  return: it is parked in the send.
\<close>

theorem output_capture_callback_blocks_on_full_pipe:
  "loopback_callback input
      (new_recorder\<lparr>Samples := \<lparr>queue = replicate 1024 b, capacity = 1024, chan_closed = False\<rparr>\<rparr>)
     = CallbackReturns
         (new_recorder\<lparr>Samples := \<lparr>queue = replicate 1024 b, capacity = 1024, chan_closed = False\<rparr>\<rparr>)
         [''Warning: Sample channel is full, discarding one frame'']
   \<and> output_capture_callback input
      (inbuf, new_recorder\<lparr>Samples := \<lparr>queue = replicate 1024 b, capacity = 1024, chan_closed = False\<rparr>\<rparr>)
     = CallbackBlocked"
  by (simp add: loopback_callback_full output_capture_callback_full)

section \<open>Properties of Stop\<close>

lemma recorder_Stop_returns:
  assumes "recorder_inv r"
  shows "recorder_Stop (pa, r)
     = Returns (SafePortAudioTerminate pa,
         r\<lparr>stream := None, Samples := (Samples r)\<lparr>chan_closed := True\<rparr>, isClosed := True\<rparr>)"
  using assms
  by (cases "isClosed r") (auto simp: recorder_Stop_def recorder_inv_def close_chan_def Let_def)

lemma recorder_Stop_twice:
  assumes "recorder_inv r"
  shows "and_then (recorder_Stop (pa, r)) recorder_Stop
     = Returns (SafePortAudioTerminate (SafePortAudioTerminate pa),
         r\<lparr>stream := None, Samples := (Samples r)\<lparr>chan_closed := True\<rparr>, isClosed := True\<rparr>)"
proof -
  let ?r' = "r\<lparr>stream := None, Samples := (Samples r)\<lparr>chan_closed := True\<rparr>, isClosed := True\<rparr>"
  have "recorder_inv ?r'"
    by (simp add: recorder_inv_def)
  then have "recorder_Stop (SafePortAudioTerminate pa, ?r')
      = Returns (SafePortAudioTerminate (SafePortAudioTerminate pa),
          ?r'\<lparr>stream := None, Samples := (Samples ?r')\<lparr>chan_closed := True\<rparr>, isClosed := True\<rparr>)"
    by (rule recorder_Stop_returns)
  then show ?thesis
    by (simp add: and_then_def recorder_Stop_returns [OF assms])
qed

lemma new_recorder_inv: "recorder_inv new_recorder"
  by (simp add: recorder_inv_def new_recorder_def make_chan_def)

text \<open>
  C2 where two components share the driver. A session and an output-capture recorder are
  constructed: the counter is 2. (1) Stop, called twice on a recorder, returns both times
  (no panic, the channel is closed once), but the second call runs
  \<^verbatim>\<open>SafePortAudioTerminate\<close> again: the counter goes 2, 1, 0 and the driver is torn down
  while the other component has not released it. (2) With one component only, the second
  Stop calls the physical teardown a second time. (3) Stop called twice on the session
  stops its recorder twice, with the same effect on the counter. (4) Stop called once on
  the session, followed by the return of the send goroutine (whose deferred call stops
  the recorder again), has that effect too.
\<close>

theorem second_stop_releases_driver_again:
  "fst (NewSession True True ''alloy'' ''English'' pa_initial
        :: pa_state \<times> (error + float32 session))
     = \<lparr>paInitCount = 1, pa_calls = [PaInitialize True]\<rparr>
   \<and> fst (NewOutputCaptureRecorder True \<lparr>paInitCount = 1, pa_calls = [PaInitialize True]\<rparr>
        :: pa_state \<times> (error + float32 recorder))
     = \<lparr>paInitCount = 2, pa_calls = [PaInitialize True]\<rparr>
   \<and> LoopbackRecorder_Stop (\<lparr>paInitCount = 2, pa_calls = [PaInitialize True]\<rparr>,
        new_recorder :: float32 recorder)
     = Returns (\<lparr>paInitCount = 1, pa_calls = [PaInitialize True]\<rparr>,
         new_recorder\<lparr>Samples := (make_chan 1024)\<lparr>chan_closed := True\<rparr>, isClosed := True\<rparr>)
   \<and> LoopbackRecorder_Stop (\<lparr>paInitCount = 1, pa_calls = [PaInitialize True]\<rparr>,
        new_recorder\<lparr>Samples := (make_chan 1024)\<lparr>chan_closed := True\<rparr>, isClosed := True\<rparr>
          :: float32 recorder)
     = Returns (\<lparr>paInitCount = 0, pa_calls = [PaInitialize True, PaTerminate]\<rparr>,
         new_recorder\<lparr>Samples := (make_chan 1024)\<lparr>chan_closed := True\<rparr>, isClosed := True\<rparr>)
   \<and> and_then (OutputCaptureRecorder_Stop (\<lparr>paInitCount = 1, pa_calls = [PaInitialize True]\<rparr>,
        new_recorder :: float32 recorder)) OutputCaptureRecorder_Stop
     = Returns (\<lparr>paInitCount = 0, pa_calls = [PaInitialize True, PaTerminate, PaTerminate]\<rparr>,
         new_recorder\<lparr>Samples := (make_chan 1024)\<lparr>chan_closed := True\<rparr>, isClosed := True\<rparr>)
   \<and> map_outcome fst (and_then (Session_Stop (\<lparr>paInitCount = 2, pa_calls = [PaInitialize True]\<rparr>,
        new_session DcOpen ''alloy'' ''English'' :: float32 session)) Session_Stop)
     = Returns \<lparr>paInitCount = 0, pa_calls = [PaInitialize True, PaTerminate]\<rparr>
   \<and> map_outcome fst (and_then (Session_Stop (\<lparr>paInitCount = 2, pa_calls = [PaInitialize True]\<rparr>,
        new_session DcOpen ''alloy'' ''English'' :: float32 session)) send_goroutine_return)
     = Returns \<lparr>paInitCount = 0, pa_calls = [PaInitialize True, PaTerminate]\<rparr>"
  by (simp add: NewSession_def NewLoopbackRecorder_def NewOutputCaptureRecorder_def
      SafePortAudioInit_def pa_initial_def LoopbackRecorder_Stop_def
      OutputCaptureRecorder_Stop_def recorder_Stop_def close_chan_def and_then_def
      SafePortAudioTerminate_def Let_def new_recorder_def make_chan_def Session_Stop_def
      send_goroutine_return_def new_session_def dc_SendText_def)

section \<open>Order of the messages on the data channel\<close>

lemma send_loop_iteration_open:
  assumes "ready_state (dc s) = DcOpen" and "queue (Samples (recorder s)) = samples # rest"
  shows "send_loop_iteration c False s
     = Continue (s\<lparr>recorder := (recorder s)\<lparr>Samples := (Samples (recorder s))\<lparr>queue := rest\<rparr>\<rparr>,
                  dc := (dc s)\<lparr>sent := sent (dc s)
                     @ [InputAudioBufferAppend (base64_encode c (pcm_bytes c samples))]\<rparr>\<rparr>)"
  using assms by (simp add: send_loop_iteration_def chan_recv_def dc_SendText_def Let_def)

lemma translation_prompt_nonempty: "translation_prompt lang \<noteq> []"
  by (simp add: translation_prompt_def)

text \<open>
  C6. The only test the send loop makes before it sends is that the data channel is
  open. (1) \<^verbatim>\<open>Start\<close> is called on a session whose data channel is already open (the case
  the \<^verbatim>\<open>else\<close> branch of \<^verbatim>\<open>Start\<close> is written for), and the send goroutine runs one pass
  before \<^verbatim>\<open>Start\<close> reaches \<^verbatim>\<open>initializeSession\<close>. (2) \<^verbatim>\<open>Start\<close> is called while the channel
  is connecting, the transport opens the channel, and the send goroutine runs one pass
  before the open handler runs. In both executions the audio message is on the transport
  first and the session.update message second.
\<close>

theorem audio_sent_before_session_update:
  "map_option (\<lambda>s. sent (dc s))
     (start_with_early_send_pass c (env_of [usb_mic] (Some usb_mic)) ''USB Mic'' [x]
        (new_session DcOpen ''alloy'' ''English''))
   = Some [InputAudioBufferAppend (base64_encode c (pcm_bytes c [x])),
           SessionUpdate ''alloy'' (translation_prompt ''English'')]
   \<and> map_option (\<lambda>s. sent (dc s))
     (open_with_early_send_pass c (env_of [usb_mic] (Some usb_mic)) ''USB Mic'' [x]
        (new_session DcConnecting ''alloy'' ''English''))
   = Some [InputAudioBufferAppend (base64_encode c (pcm_bytes c [x])),
           SessionUpdate ''alloy'' (translation_prompt ''English'')]"
proof -
  have sel: "loopback_select [core_audio [usb_mic] (Some usb_mic)] ''USB Mic'' = Some usb_mic"
    by (simp add: loopback_select_def core_audio_def usb_mic_def)
  have first: "map_option (\<lambda>s. sent (dc s))
     (start_with_early_send_pass c (env_of [usb_mic] (Some usb_mic)) ''USB Mic'' [x]
        (new_session DcOpen ''alloy'' ''English''))
   = Some [InputAudioBufferAppend (base64_encode c (pcm_bytes c [x])),
           SessionUpdate ''alloy'' (translation_prompt ''English'')]"
    by (simp add: start_with_early_send_pass_def Session_Start_spawn_def
        LoopbackRecorder_Start_def env_of_def sel open_and_start_def new_session_def
        loopback_callback_def chan_send_def new_recorder_def make_chan_def
        send_loop_iteration_def chan_recv_def dc_SendText_def Session_Start_rest_def
        initializeSession_def buildTranslationPrompt_def translation_prompt_nonempty Let_def)
  have second: "map_option (\<lambda>s. sent (dc s))
     (open_with_early_send_pass c (env_of [usb_mic] (Some usb_mic)) ''USB Mic'' [x]
        (new_session DcConnecting ''alloy'' ''English''))
   = Some [InputAudioBufferAppend (base64_encode c (pcm_bytes c [x])),
           SessionUpdate ''alloy'' (translation_prompt ''English'')]"
    by (simp add: open_with_early_send_pass_def Session_Start_def Session_Start_spawn_def
        LoopbackRecorder_Start_def env_of_def sel open_and_start_def new_session_def
        loopback_callback_def chan_send_def new_recorder_def make_chan_def
        send_loop_iteration_def chan_recv_def dc_SendText_def Session_Start_rest_def
        data_channel_opens_def on_open_runs_def
        initializeSession_def buildTranslationPrompt_def translation_prompt_nonempty Let_def)
  show ?thesis
    using first second by (rule conjI)
qed

section \<open>Properties of the audio file\<close>

lemma le32_decode_le32: "le32_decode (le32 w) = Some w"
proof -
  let ?v = "(ucast (ucast w :: byte) OR push_bit 8 (ucast (ucast (drop_bit 8 w) :: byte))
     OR push_bit 16 (ucast (ucast (drop_bit 16 w) :: byte))
     OR push_bit 24 (ucast (ucast (drop_bit 24 w) :: byte))) :: 32 word"
  have "?v = w"
  proof (rule bit_word_eqI)
    fix n assume n: "n < LENGTH(32)"
    consider "n < 8" | "8 \<le> n" "n < 16" | "16 \<le> n" "n < 24" | "24 \<le> n" "n < 32"
      using n by fastforce
    then show "bit ?v n = bit w n"
      by cases (auto simp add: bit_simps)
  qed
  then show ?thesis
    by (simp add: le32_decode_def le32_def)
qed

lemma length_le32: "length (le32 w) = 4"
  by (simp add: le32_def)

lemma length_le16: "length (le16 w) = 2"
  by (simp add: le16_def)

lemma write_at_end: "write_at (length cs) bs cs = cs @ bs"
  by (simp add: write_at_def)

lemma file_Write_append:
  "offset f = length (contents f) \<Longrightarrow>
   file_Write False bs f
     = (\<lparr>contents = contents f @ bs, offset = length (contents f) + length bs\<rparr>, length bs, None)"
  by (simp add: file_Write_def write_at_end)

lemma binary_Write_append:
  "binary_Write False bs \<lparr>contents = cs, offset = length cs\<rparr>
     = (\<lparr>contents = cs @ bs, offset = length (cs @ bs)\<rparr>, None)"
  by (simp add: binary_Write_def file_Write_append)

lemma file_WriteString_append:
  "file_WriteString False str \<lparr>contents = cs, offset = length cs\<rparr>
     = (\<lparr>contents = cs @ map of_char str, offset = length (cs @ map of_char str)\<rparr>, None)"
  by (simp add: file_WriteString_def file_Write_append)

lemma length_wav_header: "length (wav_header sr nc bps) = 44"
  by (simp add: wav_header_def length_le32 length_le16)

lemma writeWavHeader_append:
  "writeWavHeader False \<lparr>contents = cs, offset = length cs\<rparr> sr nc bps
     = (\<lparr>contents = cs @ wav_header sr nc bps, offset = length cs + 44\<rparr>, None)"
  unfolding writeWavHeader_def
  apply (simp only: file_WriteString_append binary_Write_append io_then_def prod.case option.case)
  apply (simp add: wav_header_def length_le32 length_le16)
  done


lemma uint32_int64: "uint32 (int64 x) = uint32 x"
  unfolding uint32_def int64_def
  by (rule bit_word_eqI) (auto simp add: bit_simps)

lemma uint32_add_nat: "uint32 (t + int n) = uint32 t + of_nat n"
  by (simp add: uint32_def)

lemma write_all_append:
  "write_all ws (\<lparr>contents = cs, offset = length cs\<rparr>, t)
     = (\<lparr>contents = cs @ concat ws, offset = length (cs @ concat ws)\<rparr>,
        snd (write_all ws (\<lparr>contents = cs, offset = length cs\<rparr>, t)))"
proof (induction ws arbitrary: cs t)
  case Nil
  show ?case by simp
next
  case (Cons bs ws)
  have step: "file_Write False bs \<lparr>contents = cs, offset = length cs\<rparr>
      = (\<lparr>contents = cs @ bs, offset = length (cs @ bs)\<rparr>, length bs, None)"
    by (simp add: file_Write_append)
  show ?case
    using Cons.IH [of "cs @ bs" "int64 (t + int (length bs))"]
    by (simp add: step)
qed

lemma write_all_total:
  "uint32 (snd (write_all ws (\<lparr>contents = cs, offset = length cs\<rparr>, t)))
     = uint32 t + of_nat (length (concat ws))"
proof (induction ws arbitrary: cs t)
  case Nil
  show ?case by simp
next
  case (Cons bs ws)
  have step: "file_Write False bs \<lparr>contents = cs, offset = length cs\<rparr>
      = (\<lparr>contents = cs @ bs, offset = length (cs @ bs)\<rparr>, length bs, None)"
    by (simp add: file_Write_append)
  show ?case
    using Cons.IH [of "cs @ bs" "int64 (t + int (length bs))"]
    by (simp add: step uint32_int64 uint32_add_nat)
qed

lemma updateWavHeader_patch:
  assumes "44 \<le> length cs"
  shows "updateWavHeader False \<lparr>contents = cs, offset = k\<rparr> d
     = (\<lparr>contents = take 4 cs @ le32 (uint32 (int64 (d + 36))) @ take 32 (drop 8 cs)
                      @ le32 (uint32 d) @ drop 44 cs,
         offset = 8\<rparr>, None)"
  using assms
  by (simp add: updateWavHeader_def io_then_def file_Seek_def binary_Write_def file_Write_def
      write_at_def length_le32 drop_take)

lemma fields_after_patch:
  assumes "length h4 = 4" and "length m = 32" and "length b4 = 4" and "length b40 = 4"
  shows "le32_at 4 (h4 @ b4 @ m @ b40 @ rest) = le32_decode b4"
    and "le32_at 40 (h4 @ b4 @ m @ b40 @ rest) = le32_decode b40"
  using assms by (simp_all add: le32_at_def)


lemma record_wav_contents:
  "contents (record_wav sr nc bps ws)
     = take 4 (wav_header sr nc bps)
       @ le32 (of_nat (length (concat ws)) + 36)
       @ take 32 (drop 8 (wav_header sr nc bps))
       @ le32 (of_nat (length (concat ws)))
       @ concat ws"
proof -
  let ?h = "wav_header sr nc bps"
  let ?f1 = "\<lparr>contents = ?h, offset = length ?h\<rparr>"
  let ?t = "snd (write_all ws (?f1, 0))"
  have hdr: "writeWavHeader False empty_file sr nc bps = (?f1, None)"
    using writeWavHeader_append [of "[]" sr nc bps]
    by (simp add: empty_file_def length_wav_header)
  have wr: "write_all ws (?f1, 0)
      = (\<lparr>contents = ?h @ concat ws, offset = length (?h @ concat ws)\<rparr>, ?t)"
    by (rule write_all_append)
  have t: "uint32 ?t = of_nat (length (concat ws))"
    using write_all_total [of ws ?h 0] by (simp add: uint32_def)
  have t36: "uint32 (int64 (?t + 36)) = of_nat (length (concat ws)) + 36"
    using t by (simp add: uint32_int64) (simp add: uint32_def)
  have "44 \<le> length (?h @ concat ws)"
    by (simp add: length_wav_header)
  then have "updateWavHeader False \<lparr>contents = ?h @ concat ws, offset = length (?h @ concat ws)\<rparr> ?t
      = (\<lparr>contents = take 4 (?h @ concat ws) @ le32 (uint32 (int64 (?t + 36)))
            @ take 32 (drop 8 (?h @ concat ws)) @ le32 (uint32 ?t) @ drop 44 (?h @ concat ws),
          offset = 8\<rparr>, None)"
    by (rule updateWavHeader_patch)
  then have "contents (record_wav sr nc bps ws)
      = take 4 (?h @ concat ws) @ le32 (uint32 (int64 (?t + 36)))
            @ take 32 (drop 8 (?h @ concat ws)) @ le32 (uint32 ?t) @ drop 44 (?h @ concat ws)"
    unfolding record_wav_def Let_def hdr fst_conv
    by (subst wr, simp only: fst_conv snd_conv) simp
  then show ?thesis
    using t t36 by (simp add: length_wav_header)
qed

lemma record_wav_fields:
  "le32_at 40 (contents (record_wav sr nc bps ws)) = Some (of_nat (length (concat ws)))"
  "le32_at 4 (contents (record_wav sr nc bps ws)) = Some (of_nat (length (concat ws)) + 36)"
  unfolding record_wav_contents
  by (simp_all add: fields_after_patch length_le32 length_wav_header le32_decode_le32)

lemma wav_header_48000_mono_16:
  "wav_header 48000 1 16 =
   [82, 73, 70, 70, 0, 0, 0, 0, 87, 65, 86, 69, 102, 109, 116, 32,
    16, 0, 0, 0, 1, 0, 1, 0, 128, 187, 0, 0, 0, 119, 1, 0,
    2, 0, 16, 0, 100, 97, 116, 97, 0, 0, 0, 0]"
  by (simp add: wav_header_def le32_def le16_def uint16_def uint32_def go_div_def int64_def
      signed_take_bit_eq_take_bit_minus)

text \<open>
  One write of \<open>2\<^sup>3\<^sup>2\<close> bytes: \<open>D = 4294967296\<close>, and after the update of the header the
  field at offset 40 holds 0 and the field at offset 4 holds 36.
\<close>

theorem wav_size_fields_wrap_at_4GiB:
  "length (concat [replicate 4294967296 (0::byte)]) = 4294967296
   \<and> map_option unat
       (le32_at 40 (contents (record_wav 48000 1 16 [replicate 4294967296 0]))) = Some 0
   \<and> map_option unat
       (le32_at 4 (contents (record_wav 48000 1 16 [replicate 4294967296 0]))) = Some 36
   \<and> map_option unat
       (le32_at 40 (contents (record_wav 48000 1 16 [replicate 4294967296 0])))
       \<noteq> Some (length (concat [replicate 4294967296 (0::byte)]))"
  by (simp add: record_wav_fields)

text \<open>
  C1, as the code has it. On a new file whose operations succeed, \<^verbatim>\<open>writeWavHeader\<close>
  writes 44 bytes: "RIFF", a zero size field at offset 4, "WAVE", "fmt ", the format
  fields, "data", a zero size field at offset 40. After any sequence of writes totalling
  \<open>D\<close> bytes and the update of the header with the running total, the data follows the 44
  bytes unchanged, the 32-bit little-endian field at offset 40 holds \<open>D mod 2\<^sup>3\<^sup>2\<close> and the
  field at offset 4 holds \<open>(D + 36) mod 2\<^sup>3\<^sup>2\<close>: they are \<open>D\<close> and \<open>D + 36\<close> whenever
  \<open>D + 36 < 2\<^sup>3\<^sup>2\<close>.
\<close>

theorem wav_header_sizes_after_finalize:
  "writeWavHeader False empty_file sr nc bps
     = (\<lparr>contents = wav_header sr nc bps, offset = 44\<rparr>, None)
   \<and> length (wav_header sr nc bps) = 44
   \<and> take 4 (wav_header sr nc bps) = map of_char ''RIFF''
   \<and> le32_at 4 (wav_header sr nc bps) = Some 0
   \<and> take 8 (drop 8 (wav_header sr nc bps)) = map of_char ''WAVEfmt ''
   \<and> take 4 (drop 36 (wav_header sr nc bps)) = map of_char ''data''
   \<and> le32_at 40 (wav_header sr nc bps) = Some 0
   \<and> drop 44 (contents (record_wav sr nc bps ws)) = concat ws
   \<and> take 32 (drop 8 (contents (record_wav sr nc bps ws))) = take 32 (drop 8 (wav_header sr nc bps))
   \<and> map_option unat (le32_at 40 (contents (record_wav sr nc bps ws)))
       = Some (length (concat ws) mod 2 ^ 32)
   \<and> map_option unat (le32_at 4 (contents (record_wav sr nc bps ws)))
       = Some ((length (concat ws) + 36) mod 2 ^ 32)
   \<and> (length (concat ws) + 36 < 2 ^ 32 \<longrightarrow>
        map_option unat (le32_at 40 (contents (record_wav sr nc bps ws)))
          = Some (length (concat ws))
        \<and> map_option unat (le32_at 4 (contents (record_wav sr nc bps ws)))
          = Some (length (concat ws) + 36))"
proof -
  let ?h = "wav_header sr nc bps"
  let ?D = "length (concat ws)"
  have p1: "writeWavHeader False empty_file sr nc bps = (\<lparr>contents = ?h, offset = 44\<rparr>, None)"
    using writeWavHeader_append [of "[]" sr nc bps] by (simp add: empty_file_def)
  have p2: "length ?h = 44"
    by (rule length_wav_header)
  have p3: "take 4 ?h = map of_char ''RIFF''"
    by (simp add: wav_header_def)
  have p4: "le32_at 4 ?h = Some 0"
    by (simp add: wav_header_def le32_at_def le32_def le32_decode_def)
  have p5: "take 8 (drop 8 ?h) = map of_char ''WAVEfmt ''"
    by (simp add: wav_header_def le32_def)
  have p6: "take 4 (drop 36 ?h) = map of_char ''data''"
    by (simp add: wav_header_def le32_def le16_def)
  have p7: "le32_at 40 ?h = Some 0"
    by (simp add: wav_header_def le32_at_def le32_def le16_def le32_decode_def)
  have p8: "drop 44 (contents (record_wav sr nc bps ws)) = concat ws"
    by (simp add: record_wav_contents length_le32 length_wav_header)
  have p9: "take 32 (drop 8 (contents (record_wav sr nc bps ws))) = take 32 (drop 8 ?h)"
    by (simp add: record_wav_contents length_le32 length_wav_header)
  have "of_nat ?D + 36 = (of_nat (?D + 36) :: 32 word)"
    by simp
  then have f4: "le32_at 4 (contents (record_wav sr nc bps ws)) = Some (of_nat (?D + 36))"
    by (simp only: record_wav_fields)
  have p10: "map_option unat (le32_at 40 (contents (record_wav sr nc bps ws)))
       = Some (?D mod 2 ^ 32)"
    by (simp add: record_wav_fields unat_of_nat)
  have p11: "map_option unat (le32_at 4 (contents (record_wav sr nc bps ws)))
       = Some ((?D + 36) mod 2 ^ 32)"
    by (simp only: f4 option.map unat_of_nat) simp
  have p12: "map_option unat (le32_at 40 (contents (record_wav sr nc bps ws))) = Some ?D
        \<and> map_option unat (le32_at 4 (contents (record_wav sr nc bps ws))) = Some (?D + 36)"
    if "?D + 36 < 2 ^ 32"
  proof -
    have "?D mod 2 ^ 32 = ?D" "(?D + 36) mod 2 ^ 32 = ?D + 36"
      using that by simp_all
    then show ?thesis
      using p10 p11 by simp
  qed
  show ?thesis
    using p1 p2 p3 p4 p5 p6 p7 p8 p9 p10 p11 p12 by blast
qed

theorem wav_header_sizes_after_finalize_witness:
  "length (concat [[1, 2], [3 :: byte]]) + 36 < 2 ^ 32
   \<and> contents (fst (writeWavHeader False empty_file 48000 1 16))
       = [82, 73, 70, 70, 0, 0, 0, 0, 87, 65, 86, 69, 102, 109, 116, 32,
          16, 0, 0, 0, 1, 0, 1, 0, 128, 187, 0, 0, 0, 119, 1, 0,
          2, 0, 16, 0, 100, 97, 116, 97, 0, 0, 0, 0]
   \<and> map_option unat (le32_at 40 (contents (record_wav 48000 1 16 [[1, 2], [3]]))) = Some 3
   \<and> map_option unat (le32_at 4 (contents (record_wav 48000 1 16 [[1, 2], [3]]))) = Some 39
   \<and> drop 44 (contents (record_wav 48000 1 16 [[1, 2], [3]])) = [1, 2, 3]"
  using wav_header_sizes_after_finalize [of 48000 1 16 "[[1, 2], [3]]"]
  by (simp add: wav_header_48000_mono_16)

section \<open>Properties of the receive loop\<close>

lemma localTrack_iteration_exit:
  assumes "stop_signalled t \<or> transport_closed (rtp t)"
  shows "localTrack_iteration t st = TrackReturns (finalize_audio_file (disk_failing t) st)"
  using assms
  by (auto simp: localTrack_iteration_def transport_closed_def split: rtp_read.splits)

lemma localTrack_iteration_returns:
  assumes "localTrack_iteration t st = TrackReturns st'"
  shows "(stop_signalled t \<or> transport_closed (rtp t))
     \<and> st' = finalize_audio_file (disk_failing t) st"
  using assms
  by (auto simp: localTrack_iteration_def transport_closed_def Let_def
      split: rtp_read.splits decode_result.splits if_splits)

lemma localTrack_iteration_skip:
  assumes "\<not> stop_signalled t" and "transient_failure (rtp t)"
  shows "localTrack_iteration t st = TrackContinues st"
  using assms
  by (auto simp: localTrack_iteration_def transient_failure_def
      split: rtp_read.splits decode_result.splits)

lemma localTrack_loop_returns:
  assumes "localTrack_loop ts st = TrackReturns st'"
  shows "\<exists>pre t post st0. ts = pre @ t # post
     \<and> localTrack_loop pre st = TrackContinues st0
     \<and> (stop_signalled t \<or> transport_closed (rtp t))
     \<and> st' = finalize_audio_file (disk_failing t) st0"
  using assms
proof (induction ts arbitrary: st)
  case Nil
  then show ?case by simp
next
  case (Cons a ts)
  show ?case
  proof (cases "localTrack_iteration a st")
    case (TrackContinues st1)
    then have "localTrack_loop ts st1 = TrackReturns st'"
      using Cons.prems by simp
    then obtain pre t post st0 where *: "ts = pre @ t # post"
      "localTrack_loop pre st1 = TrackContinues st0"
      "stop_signalled t \<or> transport_closed (rtp t)"
      "st' = finalize_audio_file (disk_failing t) st0"
      using Cons.IH by blast
    have "a # ts = (a # pre) @ t # post"
      using *(1) by simp
    moreover have "localTrack_loop (a # pre) st = TrackContinues st0"
      using TrackContinues *(2) by simp
    ultimately show ?thesis
      using *(3,4) by blast
  next
    case (TrackReturns st1)
    then have st1: "st1 = st'"
      using Cons.prems by simp
    have "(stop_signalled a \<or> transport_closed (rtp a))
       \<and> st' = finalize_audio_file (disk_failing a) st"
      using TrackReturns st1 localTrack_iteration_returns by blast
    moreover have "a # ts = [] @ a # ts" "localTrack_loop [] st = TrackContinues st"
      by simp_all
    ultimately show ?thesis
      by blast
  next
    case TrackPanics
    then show ?thesis
      using Cons.prems by simp
  qed
qed

lemma localTrack_loop_skips:
  assumes "\<forall>t\<in>set ts. \<not> stop_signalled t \<and> transient_failure (rtp t)"
  shows "localTrack_loop ts st = TrackContinues st"
  using assms by (induction ts) (simp_all add: localTrack_iteration_skip)

lemma updateWavHeader_fields:
  "le32_at 40 (contents (fst (updateWavHeader False f d))) = Some (uint32 d)"
  "le32_at 4 (contents (fst (updateWavHeader False f d))) = Some (uint32 (int64 (d + 36)))"
proof -
  let ?c1 = "write_at 40 (le32 (uint32 d)) (contents f)"
  have c1: "?c1 = take 40 (contents f @ replicate (40 - length (contents f)) 0)
      @ le32 (uint32 d) @ drop 44 (contents f)"
    by (simp add: write_at_def length_le32)
  have len1: "44 \<le> length ?c1"
    by (simp add: c1 length_le32)
  have upd: "contents (fst (updateWavHeader False f d))
      = write_at 4 (le32 (uint32 (int64 (d + 36)))) ?c1"
    by (simp add: updateWavHeader_def io_then_def file_Seek_def binary_Write_def file_Write_def)
  have c2: "write_at 4 (le32 (uint32 (int64 (d + 36)))) ?c1
      = take 4 ?c1 @ le32 (uint32 (int64 (d + 36))) @ drop 8 ?c1"
    using len1 by (simp add: write_at_def length_le32)
  have d8: "drop 8 ?c1 = take 32 (drop 8 (contents f @ replicate (40 - length (contents f)) 0))
      @ le32 (uint32 d) @ drop 44 (contents f)"
    by (simp add: c1 drop_take)
  have l32: "length (take 32 (drop 8 (contents f @ replicate (40 - length (contents f)) 0))) = 32"
    by simp
  have l4: "length (take 4 ?c1) = 4"
    using len1 by simp
  show "le32_at 40 (contents (fst (updateWavHeader False f d))) = Some (uint32 d)"
    unfolding upd c2 d8
    using fields_after_patch(2) [OF l4 l32 length_le32 length_le32]
    by (simp add: le32_decode_le32)
  show "le32_at 4 (contents (fst (updateWavHeader False f d))) = Some (uint32 (int64 (d + 36)))"
    unfolding upd c2 d8
    using fields_after_patch(1) [OF l4 l32 length_le32 length_le32]
    by (simp add: le32_decode_le32)
qed

lemma int16_le_le16: "int16_le x = le16 x"
proof -
  have "(ucast (signed_drop_bit 8 x) :: byte) = ucast (drop_bit 8 x)"
    by (rule bit_word_eqI) (auto simp add: bit_simps)
  then show ?thesis
    by (simp add: int16_le_def le16_def)
qed

lemma localTrack_iteration_file:
  assumes "audioFile st = Some \<lparr>contents = cs, offset = length cs\<rparr>"
    and "\<not> disk_failing t"
    and "localTrack_iteration t st = TrackContinues st'"
  shows "\<exists>data. audioFile st' = Some \<lparr>contents = cs @ data, offset = length (cs @ data)\<rparr>
      \<and> uint32 (totalAudioBytes st') = uint32 (totalAudioBytes st) + of_nat (length data)
      \<and> audioBuffer st' = audioBuffer st @ data"
proof (cases "\<exists>payload pcm. rtp t = RtpPacket payload (Decoded pcm)")
  case True
  then obtain payload pcm where r: "rtp t = RtpPacket payload (Decoded pcm)"
    by blast
  let ?data = "concat (map int16_le pcm)"
  have w: "file_Write False ?data \<lparr>contents = cs, offset = length cs\<rparr>
      = (\<lparr>contents = cs @ ?data, offset = length (cs @ ?data)\<rparr>, length ?data, None)"
    by (simp add: file_Write_append)
  have "audioFile st' = Some \<lparr>contents = cs @ ?data, offset = length (cs @ ?data)\<rparr>
      \<and> totalAudioBytes st' = int64 (totalAudioBytes st + int (length ?data))
      \<and> audioBuffer st' = audioBuffer st @ ?data"
    using assms r
    by (auto simp: localTrack_iteration_def Let_def w split: if_splits)
  then show ?thesis
    by (auto simp: uint32_int64 uint32_add_nat)
next
  case False
  then have "st' = st"
    using assms(3)
    by (auto simp: localTrack_iteration_def Let_def
        split: if_splits rtp_read.splits decode_result.splits)
  then show ?thesis
    using assms(1) by simp
qed

lemma localTrack_loop_file:
  assumes "audioFile st = Some \<lparr>contents = cs, offset = length cs\<rparr>"
    and "\<forall>t\<in>set ts. \<not> disk_failing t"
    and "localTrack_loop ts st = TrackContinues st'"
  shows "\<exists>data. audioFile st' = Some \<lparr>contents = cs @ data, offset = length (cs @ data)\<rparr>
      \<and> uint32 (totalAudioBytes st') = uint32 (totalAudioBytes st) + of_nat (length data)
      \<and> audioBuffer st' = audioBuffer st @ data"
  using assms
proof (induction ts arbitrary: st cs)
  case Nil
  then show ?case by simp
next
  case (Cons t ts)
  from Cons.prems(3) obtain st1 where it: "localTrack_iteration t st = TrackContinues st1"
    and rest: "localTrack_loop ts st1 = TrackContinues st'"
    by (auto split: track_step.splits)
  have "\<not> disk_failing t"
    using Cons.prems(2) by simp
  with Cons.prems(1) it obtain d1 where
    f1: "audioFile st1 = Some \<lparr>contents = cs @ d1, offset = length (cs @ d1)\<rparr>"
    and t1: "uint32 (totalAudioBytes st1) = uint32 (totalAudioBytes st) + of_nat (length d1)"
    and b1: "audioBuffer st1 = audioBuffer st @ d1"
    using localTrack_iteration_file by blast
  have "\<forall>t\<in>set ts. \<not> disk_failing t"
    using Cons.prems(2) by simp
  with Cons.IH [OF f1 _ rest] obtain d2 where
    f2: "audioFile st' = Some \<lparr>contents = (cs @ d1) @ d2, offset = length ((cs @ d1) @ d2)\<rparr>"
    and t2: "uint32 (totalAudioBytes st') = uint32 (totalAudioBytes st1) + of_nat (length d2)"
    and b2: "audioBuffer st' = audioBuffer st1 @ d2"
    by blast
  have "audioFile st' = Some \<lparr>contents = cs @ (d1 @ d2), offset = length (cs @ (d1 @ d2))\<rparr>"
    using f2 by simp
  moreover have "uint32 (totalAudioBytes st') = uint32 (totalAudioBytes st) + of_nat (length (d1 @ d2))"
    using t1 t2 by simp
  moreover have "audioBuffer st' = audioBuffer st @ (d1 @ d2)"
    using b1 b2 by simp
  ultimately show ?case
    by blast
qed

lemma localTrack_finalized_file:
  assumes "\<forall>t\<in>set ts. \<not> disk_failing t"
    and "localTrack_loop ts
          \<lparr>audioFile = Some \<lparr>contents = wav_header 48000 1 16, offset = 44\<rparr>,
           totalAudioBytes = 0, audioBuffer = [], packetCount = 0, hasSoundData = False\<rparr>
         = TrackReturns st'"
  shows "\<exists>f. audioFile st' = Some f
      \<and> take 44 (contents f) = take 4 (wav_header 48000 1 16)
           @ le32 (of_nat (length (audioBuffer st')) + 36)
           @ take 32 (drop 8 (wav_header 48000 1 16))
           @ le32 (of_nat (length (audioBuffer st')))
      \<and> drop 44 (contents f) = audioBuffer st'
      \<and> le32_at 40 (contents f) = Some (of_nat (length (audioBuffer st')))
      \<and> le32_at 4 (contents f) = Some (of_nat (length (audioBuffer st')) + 36)"
proof -
  let ?h = "wav_header 48000 1 16"
  let ?st0 = "\<lparr>audioFile = Some \<lparr>contents = ?h, offset = 44\<rparr>,
           totalAudioBytes = 0, audioBuffer = [], packetCount = 0, hasSoundData = False\<rparr>"
  obtain pre t post st1 where ts: "ts = pre @ t # post"
    and pre: "localTrack_loop pre ?st0 = TrackContinues st1"
    and st': "st' = finalize_audio_file (disk_failing t) st1"
    using localTrack_loop_returns [OF assms(2)] by blast
  have nf: "\<not> disk_failing t" "\<forall>t\<in>set pre. \<not> disk_failing t"
    using assms(1) ts by simp_all
  have f0: "audioFile ?st0 = Some \<lparr>contents = ?h, offset = length ?h\<rparr>"
    by (simp add: length_wav_header)
  obtain data where f1: "audioFile st1 = Some \<lparr>contents = ?h @ data, offset = length (?h @ data)\<rparr>"
    and t1: "uint32 (totalAudioBytes st1) = of_nat (length data)"
    and b1: "audioBuffer st1 = data"
    using localTrack_loop_file [OF f0 nf(2) pre] by (auto simp: uint32_def)
  have len: "44 \<le> length (?h @ data)"
    by (simp add: length_wav_header)
  have t36: "uint32 (int64 (totalAudioBytes st1 + 36)) = of_nat (length data) + 36"
    using t1 by (simp add: uint32_int64) (simp add: uint32_def)
  let ?f = "fst (updateWavHeader False \<lparr>contents = ?h @ data, offset = length (?h @ data)\<rparr>
      (totalAudioBytes st1))"
  have fin: "audioFile st' = Some ?f" "audioBuffer st' = data"
    using f1 b1 nf(1) by (simp_all add: st' finalize_audio_file_def)
  have "contents ?f = take 4 (?h @ data) @ le32 (uint32 (int64 (totalAudioBytes st1 + 36)))
      @ take 32 (drop 8 (?h @ data)) @ le32 (uint32 (totalAudioBytes st1)) @ drop 44 (?h @ data)"
    by (simp add: updateWavHeader_patch [OF len])
  then have "drop 44 (contents ?f) = data"
    "take 44 (contents ?f) = take 4 ?h @ le32 (of_nat (length data) + 36)
       @ take 32 (drop 8 ?h) @ le32 (of_nat (length data))"
    using t1 t36 by (simp_all add: length_le32 length_wav_header)
  moreover have "le32_at 40 (contents ?f) = Some (of_nat (length data))"
    "le32_at 4 (contents ?f) = Some (of_nat (length data) + 36)"
    using t1 t36 by (simp_all add: updateWavHeader_fields)
  ultimately show ?thesis
    using fin by simp
qed

text \<open>
  C7. (1) When the loop returns, the pass that returned met the stop signal or a closed
  transport (end of stream, or a read error whose text contains "closed"), and the state
  it returns is the state before that pass with the exit block applied: the header of
  the audio file, when there is one, is updated with the running total. (2) Every pass
  that meets the stop signal or a closed transport returns that way. (3) The update,
  when the file operations succeed, leaves the running total in the field at offset 40
  and the total plus 36 in the field at offset 4. (4) A pass that meets a decode failure
  or any other read error changes nothing and the loop goes on; a run of such passes,
  however long, neither returns nor panics. (5) From the state \<^verbatim>\<open>localTrack\<close> sets up with
  a file, when no file operation fails: at the return the file holds the 44 header bytes
  followed by exactly the bytes that were handed to the player, and the two size fields
  hold their number and their number plus 36 (as 32-bit values).
\<close>

theorem receive_loop_exit_paths:
  "(localTrack_loop ts st = TrackReturns st' \<longrightarrow>
      (\<exists>pre t post st0. ts = pre @ t # post
         \<and> localTrack_loop pre st = TrackContinues st0
         \<and> (stop_signalled t \<or> transport_closed (rtp t))
         \<and> st' = finalize_audio_file (disk_failing t) st0))
   \<and> (stop_signalled u \<or> transport_closed (rtp u) \<longrightarrow>
        localTrack_iteration u st = TrackReturns (finalize_audio_file (disk_failing u) st))
   \<and> (audioFile st = Some f \<longrightarrow>
        (\<exists>f'. audioFile (finalize_audio_file False st) = Some f'
           \<and> le32_at 40 (contents f') = Some (uint32 (totalAudioBytes st))
           \<and> le32_at 4 (contents f') = Some (uint32 (totalAudioBytes st) + 36)))
   \<and> (\<not> stop_signalled u \<and> transient_failure (rtp u) \<longrightarrow>
        localTrack_iteration u st = TrackContinues st)
   \<and> ((\<forall>t\<in>set ts. \<not> stop_signalled t \<and> transient_failure (rtp t)) \<longrightarrow>
        localTrack_loop ts st = TrackContinues st)
   \<and> ((\<forall>t\<in>set us. \<not> disk_failing t)
        \<and> localTrack_setup True True (Some False) = Inr sa
        \<and> localTrack_loop us sa = TrackReturns sb \<longrightarrow>
        (\<exists>f'. audioFile sb = Some f'
           \<and> take 44 (contents f') = take 4 (wav_header 48000 1 16)
                @ le32 (of_nat (length (audioBuffer sb)) + 36)
                @ take 32 (drop 8 (wav_header 48000 1 16))
                @ le32 (of_nat (length (audioBuffer sb)))
           \<and> drop 44 (contents f') = audioBuffer sb
           \<and> le32_at 40 (contents f') = Some (of_nat (length (audioBuffer sb)))
           \<and> le32_at 4 (contents f') = Some (of_nat (length (audioBuffer sb)) + 36)))"
proof -
  have p5: "\<exists>f'. audioFile sb = Some f'
           \<and> take 44 (contents f') = take 4 (wav_header 48000 1 16)
                @ le32 (of_nat (length (audioBuffer sb)) + 36)
                @ take 32 (drop 8 (wav_header 48000 1 16))
                @ le32 (of_nat (length (audioBuffer sb)))
           \<and> drop 44 (contents f') = audioBuffer sb
           \<and> le32_at 40 (contents f') = Some (of_nat (length (audioBuffer sb)))
           \<and> le32_at 4 (contents f') = Some (of_nat (length (audioBuffer sb)) + 36)"
    if "\<forall>t\<in>set us. \<not> disk_failing t"
      and "localTrack_setup True True (Some False) = Inr sa"
      and "localTrack_loop us sa = TrackReturns sb"
  proof -
    have "sa = \<lparr>audioFile = Some \<lparr>contents = wav_header 48000 1 16, offset = 44\<rparr>,
           totalAudioBytes = 0, audioBuffer = [], packetCount = 0, hasSoundData = False\<rparr>"
      using that(2) writeWavHeader_append [of "[]" 48000 1 16]
      by (simp add: localTrack_setup_def empty_file_def)
    then show ?thesis
      using localTrack_finalized_file [OF that(1), of sb] that(3) by simp
  qed
  have p3: "\<exists>f'. audioFile (finalize_audio_file False st) = Some f'
           \<and> le32_at 40 (contents f') = Some (uint32 (totalAudioBytes st))
           \<and> le32_at 4 (contents f') = Some (uint32 (totalAudioBytes st) + 36)"
    if "audioFile st = Some f"
  proof -
    have "uint32 (int64 (totalAudioBytes st + 36)) = uint32 (totalAudioBytes st) + 36"
      by (simp add: uint32_int64) (simp add: uint32_def)
    then show ?thesis
      using that by (simp add: finalize_audio_file_def updateWavHeader_fields)
  qed
  show ?thesis
    using localTrack_loop_returns [of ts st st'] localTrack_iteration_exit [of u st]
      p3 localTrack_iteration_skip [of u st] localTrack_loop_skips [of ts st] p5
    by blast
qed

text \<open>
  A run from the state \<^verbatim>\<open>localTrack\<close> sets up: a packet that does not decode, a read error
  that is not a closure, a packet of two samples, then the stop signal.
\<close>

theorem receive_loop_exit_paths_witness:
  "localTrack_setup True True (Some False)
     = Inr \<lparr>audioFile = Some \<lparr>contents = wav_header 48000 1 16, offset = 44\<rparr>,
            totalAudioBytes = 0, audioBuffer = [], packetCount = 0, hasSoundData = False\<rparr>
   \<and> localTrack_loop
       [\<lparr>stop_signalled = False, rtp = RtpPacket [7] DecodeError, disk_failing = False\<rparr>,
        \<lparr>stop_signalled = False, rtp = RtpError ''i/o timeout'', disk_failing = False\<rparr>,
        \<lparr>stop_signalled = False, rtp = RtpPacket [8] (Decoded [1, - 2]), disk_failing = False\<rparr>,
        \<lparr>stop_signalled = True, rtp = RtpEOF, disk_failing = False\<rparr>]
       \<lparr>audioFile = Some \<lparr>contents = wav_header 48000 1 16, offset = 44\<rparr>,
        totalAudioBytes = 0, audioBuffer = [], packetCount = 0, hasSoundData = False\<rparr>
     = TrackReturns
        \<lparr>audioFile = Some \<lparr>contents =
            [82, 73, 70, 70, 40, 0, 0, 0, 87, 65, 86, 69, 102, 109, 116, 32,
             16, 0, 0, 0, 1, 0, 1, 0, 128, 187, 0, 0, 0, 119, 1, 0,
             2, 0, 16, 0, 100, 97, 116, 97, 4, 0, 0, 0, 1, 0, 254, 255], offset = 8\<rparr>,
         totalAudioBytes = 4, audioBuffer = [1, 0, 254, 255], packetCount = 1,
         hasSoundData = True\<rparr>
   \<and> le32_at 40
        [82, 73, 70, 70, 40, 0, 0, 0, 87, 65, 86, 69, 102, 109, 116, 32,
         16, 0, 0, 0, 1, 0, 1, 0, 128, 187, 0, 0, 0, 119, 1, 0,
         2, 0, 16, 0, 100, 97, 116, 97, 4, 0, 0, 0, 1, 0, 254, 255] = Some 4
   \<and> le32_at 4
        [82, 73, 70, 70, 40, 0, 0, 0, 87, 65, 86, 69, 102, 109, 116, 32,
         16, 0, 0, 0, 1, 0, 1, 0, 128, 187, 0, 0, 0, 119, 1, 0,
         2, 0, 16, 0, 100, 97, 116, 97, 4, 0, 0, 0, 1, 0, 254, 255] = Some 40
   \<and> transport_closed (RtpError ''use of closed network connection'')
   \<and> transient_failure (RtpError ''i/o timeout'')
   \<and> transient_failure (RtpPacket [7] DecodeError)
   \<and> localTrack_loop
       [\<lparr>stop_signalled = False, rtp = RtpPacket [7] DecodeError, disk_failing = False\<rparr>,
        \<lparr>stop_signalled = False, rtp = RtpError ''i/o timeout'', disk_failing = False\<rparr>]
       \<lparr>audioFile = None, totalAudioBytes = 0, audioBuffer = [], packetCount = 0,
        hasSoundData = False\<rparr>
     = TrackContinues \<lparr>audioFile = None, totalAudioBytes = 0, audioBuffer = [],
         packetCount = 0, hasSoundData = False\<rparr>"
proof -
  let ?st = "\<lparr>audioFile = Some \<lparr>contents = wav_header 48000 1 16, offset = 44\<rparr>,
        totalAudioBytes = 0, audioBuffer = [], packetCount = 0, hasSoundData = False\<rparr>"
  let ?ts = "[\<lparr>stop_signalled = False, rtp = RtpPacket [7] DecodeError, disk_failing = False\<rparr>,
        \<lparr>stop_signalled = False, rtp = RtpError ''i/o timeout'', disk_failing = False\<rparr>,
        \<lparr>stop_signalled = False, rtp = RtpPacket [8] (Decoded [1, - 2]), disk_failing = False\<rparr>,
        \<lparr>stop_signalled = True, rtp = RtpEOF, disk_failing = False\<rparr>]"
  have init: "localTrack_setup True True (Some False) = Inr ?st"
    using writeWavHeader_append [of "[]" 48000 1 16]
    by (simp add: localTrack_setup_def empty_file_def)
  have c1: "transport_closed (RtpError ''use of closed network connection'')"
    by (simp add: transport_closed_def strings_Contains_def contains_def contains_from.simps)
  have c2: "transient_failure (RtpError ''i/o timeout'')"
    by (simp add: transient_failure_def strings_Contains_def contains_def contains_from.simps)
  have c3: "transient_failure (RtpPacket [7] DecodeError)"
    by (simp add: transient_failure_def)
  have run: "localTrack_loop ?ts ?st = TrackReturns
        \<lparr>audioFile = Some \<lparr>contents =
            [82, 73, 70, 70, 40, 0, 0, 0, 87, 65, 86, 69, 102, 109, 116, 32,
             16, 0, 0, 0, 1, 0, 1, 0, 128, 187, 0, 0, 0, 119, 1, 0,
             2, 0, 16, 0, 100, 97, 116, 97, 4, 0, 0, 0, 1, 0, 254, 255], offset = 8\<rparr>,
         totalAudioBytes = 4, audioBuffer = [1, 0, 254, 255], packetCount = 1,
         hasSoundData = True\<rparr>"
    by (simp add: localTrack_iteration_def strings_Contains_def contains_def
        contains_from.simps frameSize_def int16_le_le16 le16_def abs16_def file_Write_def
        write_at_def
        wav_header_48000_mono_16 int64_def signed_take_bit_eq_take_bit_minus
        finalize_audio_file_def updateWavHeader_def io_then_def file_Seek_def
        binary_Write_def le32_def uint32_def word_sless_alt Let_def)
  let ?skip = "[\<lparr>stop_signalled = False, rtp = RtpPacket [7] DecodeError, disk_failing = False\<rparr>,
        \<lparr>stop_signalled = False, rtp = RtpError ''i/o timeout'', disk_failing = False\<rparr>]"
  let ?idle = "\<lparr>audioFile = None, totalAudioBytes = 0, audioBuffer = [], packetCount = 0,
        hasSoundData = False\<rparr>"
  have all: "\<forall>t\<in>set ?skip. \<not> stop_signalled t \<and> transient_failure (rtp t)"
    using c2 c3 by simp
  have ok: "\<forall>t\<in>set ?ts. \<not> disk_failing t"
    by simp
  note inst = receive_loop_exit_paths [where ts = ?skip and st = ?idle and us = ?ts and sa = ?st
      and sb = "\<lparr>audioFile = Some \<lparr>contents =
            [82, 73, 70, 70, 40, 0, 0, 0, 87, 65, 86, 69, 102, 109, 116, 32,
             16, 0, 0, 0, 1, 0, 1, 0, 128, 187, 0, 0, 0, 119, 1, 0,
             2, 0, 16, 0, 100, 97, 116, 97, 4, 0, 0, 0, 1, 0, 254, 255], offset = 8\<rparr>,
         totalAudioBytes = 4, audioBuffer = [1, 0, 254, 255], packetCount = 1,
         hasSoundData = True\<rparr>"]
  have skip: "localTrack_loop ?skip ?idle = TrackContinues ?idle"
    using inst all by blast
  have hyp5: "(\<forall>t\<in>set ?ts. \<not> disk_failing t) \<and> localTrack_setup True True (Some False) = Inr ?st
      \<and> localTrack_loop ?ts ?st = TrackReturns
        \<lparr>audioFile = Some \<lparr>contents =
            [82, 73, 70, 70, 40, 0, 0, 0, 87, 65, 86, 69, 102, 109, 116, 32,
             16, 0, 0, 0, 1, 0, 1, 0, 128, 187, 0, 0, 0, 119, 1, 0,
             2, 0, 16, 0, 100, 97, 116, 97, 4, 0, 0, 0, 1, 0, 254, 255], offset = 8\<rparr>,
         totalAudioBytes = 4, audioBuffer = [1, 0, 254, 255], packetCount = 1,
         hasSoundData = True\<rparr>"
    using ok init run by (intro conjI)
  note c5 = inst [THEN conjunct2, THEN conjunct2, THEN conjunct2, THEN conjunct2,
      THEN conjunct2, THEN mp, OF hyp5]
  have fields: "le32_at 40
        [82, 73, 70, 70, 40, 0, 0, 0, 87, 65, 86, 69, 102, 109, 116, 32,
         16, 0, 0, 0, 1, 0, 1, 0, 128, 187, 0, 0, 0, 119, 1, 0,
         2, 0, 16, 0, 100, 97, 116, 97, 4, 0, 0, 0, 1, 0, 254, 255] = Some 4"
    "le32_at 4
        [82, 73, 70, 70, 40, 0, 0, 0, 87, 65, 86, 69, 102, 109, 116, 32,
         16, 0, 0, 0, 1, 0, 1, 0, 128, 187, 0, 0, 0, 119, 1, 0,
         2, 0, 16, 0, 100, 97, 116, 97, 4, 0, 0, 0, 1, 0, 254, 255] = Some 40"
    using c5 by simp_all
  show ?thesis
    using init c1 c2 c3 run skip fields by simp
qed

section \<open>The integer part of the send path\<close>

text \<open>
  Whatever the conversion of a sample yields, the bytes of a batch are the 16-bit values
  in order, two bytes each, low byte first; a batch is sent, as one append message, exactly
  when one is queued and the data channel is open.
\<close>

lemma pcm_bytes_length: "length (pcm_bytes c samples) = 2 * length samples"
  by (induction samples) (simp_all add: pcm_bytes_def int16_le_def)

lemma pcm_bytes_Cons:
  "pcm_bytes c (x # xs) = int16_le (float_to_int16 c x) @ pcm_bytes c xs"
  by (simp add: pcm_bytes_def)

lemma pcm_bytes_nth:
  assumes "i < length samples"
  shows "pcm_bytes c samples ! (2 * i) = ucast (float_to_int16 c (samples ! i))"
    and "pcm_bytes c samples ! (2 * i + 1) = ucast (drop_bit 8 (float_to_int16 c (samples ! i)))"
  using assms
proof (induction samples arbitrary: i)
  case Nil
  {
    case 1
    then show ?case by simp
  next
    case 2
    then show ?case by simp
  }
next
  case (Cons x xs)
  {
    case 1
    then show ?case
      using Cons.IH(1) [of "i - 1"]
      by (cases i) (simp_all add: pcm_bytes_Cons int16_le_le16 le16_def)
  next
    case 2
    then show ?case
      using Cons.IH(2) [of "i - 1"]
      by (cases i) (simp_all add: pcm_bytes_Cons int16_le_le16 le16_def)
  }
qed

lemma send_loop_iteration_not_open:
  assumes "ready_state (dc s) \<noteq> DcOpen" and "queue (Samples (recorder s)) = samples # rest"
  shows "send_loop_iteration c False s
     = Continue (s\<lparr>recorder := (recorder s)\<lparr>Samples := (Samples (recorder s))\<lparr>queue := rest\<rparr>\<rparr>\<rparr>)"
  using assms by (simp add: send_loop_iteration_def chan_recv_def Let_def)

end
